theory Spec2Isabelle
  imports Main "HOL-Library.Char_ord" "HOL-Library.List_Lexorder" "HOL-Library.Product_Lexorder"
begin

section \<open>Strings\<close>

text \<open>
  Python's \<^verbatim>\<open>str.lower()\<close> and \<^verbatim>\<open>str.upper()\<close>, on the ASCII letters (topic names,
  difficulty names and answer letters of the bot are ASCII; other characters are left as
  they are).
\<close>

definition lower_char :: "char \<Rightarrow> char" where
  "lower_char c =
     (case map_of (zip ''ABCDEFGHIJKLMNOPQRSTUVWXYZ'' ''abcdefghijklmnopqrstuvwxyz'') c of
        Some d \<Rightarrow> d | None \<Rightarrow> c)"

definition upper_char :: "char \<Rightarrow> char" where
  "upper_char c =
     (case map_of (zip ''abcdefghijklmnopqrstuvwxyz'' ''ABCDEFGHIJKLMNOPQRSTUVWXYZ'') c of
        Some d \<Rightarrow> d | None \<Rightarrow> c)"

definition lower :: "string \<Rightarrow> string" where
  "lower s = map lower_char s"

definition upper :: "string \<Rightarrow> string" where
  "upper s = map upper_char s"

text \<open>\<^verbatim>\<open>s.startswith(p)\<close> and the substring test \<^verbatim>\<open>p in s\<close>.\<close>

definition startswith :: "string \<Rightarrow> string \<Rightarrow> bool" where
  "startswith s p = (take (length p) s = p)"

fun str_in :: "string \<Rightarrow> string \<Rightarrow> bool" where
  "str_in p [] = (p = [])"
| "str_in p (c # cs) = (startswith (c # cs) p \<or> str_in p cs)"

section \<open>The question bank\<close>

text \<open>
  One multiple-choice question, as \<^verbatim>\<open>DatabaseManager.load_mcqs\<close> builds it: the keys
  \<^verbatim>\<open>topic\<close>, \<^verbatim>\<open>difficulty\<close>, \<^verbatim>\<open>question\<close>, \<^verbatim>\<open>choices\<close>, \<^verbatim>\<open>correct_answer\<close>,
  \<^verbatim>\<open>explanation\<close>. The choices are a dict from letter to text, kept in insertion order.
\<close>

record question =
  q_topic :: string
  q_difficulty :: string
  q_question :: string
  q_choices :: "(string \<times> string) list"
  q_correct_answer :: string
  q_explanation :: string

text \<open>
  \<^verbatim>\<open>get_question_hash\<close> takes the MD5 digest of the question text, the correct answer and
  the sorted choice items. The digest is represented by the triple it is computed from, so
  two questions have the same hash exactly when these three components agree.
\<close>

type_synonym qhash = "string \<times> string \<times> (string \<times> string) list"

definition get_question_hash :: "question \<Rightarrow> qhash" where
  "get_question_hash q = (q_question q, q_correct_answer q, sort (q_choices q))"

definition TOPIC_MAPPING :: "(string \<times> string list) list" where
  "TOPIC_MAPPING =
    [(''Algorithm Analysis and Big-O Notation'',
        [''Big-O'', ''Algorithm Analysis'', ''Algorithmic Analysis'', ''Big O'', ''Big-O Notation'']),
     (''Array-Based Lists'', [''Arrays'', ''Array'', ''Array-Based'', ''Array Based Lists'']),
     (''Linked Lists'', [''Linked List'', ''LinkedList'', ''LinkedLists'']),
     (''Stacks'', [''Stack'']),
     (''Queues'', [''Queue'']),
     (''Recursion'', [''Recursive'']),
     (''Searching and Hashing'', [''Hashing'', ''Hash'', ''Search'', ''Searching'']),
     (''Binary Trees'', [''Tree'', ''Trees'', ''Binary Tree'']),
     (''Graphs'', [''Graph'']),
     (''Sorting Algorithms'', [''Sorting'', ''Sort Algorithms'', ''Sort''])]"

definition DIFFICULTY_MAPPING :: "(string \<times> string) list" where
  "DIFFICULTY_MAPPING =
    [(''easy'', ''Easy''), (''medium'', ''Medium''), (''med'', ''Medium''), (''hard'', ''Hard'')]"

text \<open>\<^verbatim>\<open>DIFFICULTY_MAPPING.get(difficulty.lower(), difficulty)\<close>\<close>

definition std_difficulty :: "string \<Rightarrow> string" where
  "std_difficulty difficulty =
     (case map_of DIFFICULTY_MAPPING (lower difficulty) of Some d \<Rightarrow> d | None \<Rightarrow> difficulty)"

text \<open>The list comprehension over \<^verbatim>\<open>all_mcqs\<close> on an exact topic and difficulty.\<close>

definition exact_matches :: "string \<Rightarrow> string \<Rightarrow> question list \<Rightarrow> question list" where
  "exact_matches topic difficulty all_mcqs =
     filter (\<lambda>q. q_topic q = topic \<and> q_difficulty q = difficulty) all_mcqs"

text \<open>
  The loop over \<^verbatim>\<open>TOPIC_MAPPING.items()\<close>: for every entry that names the topic, the
  questions of the main topic and then of each variation.
\<close>

definition variation_matches :: "string \<Rightarrow> string \<Rightarrow> question list \<Rightarrow> question list" where
  "variation_matches topic difficulty all_mcqs =
     concat (map (\<lambda>(main_topic, variations).
        if topic = main_topic \<or> topic \<in> set variations
        then concat (map (\<lambda>variation. exact_matches variation difficulty all_mcqs)
                         (main_topic # variations))
        else []) TOPIC_MAPPING)"

text \<open>
  A random selection from a non-empty list. The source shuffles and then calls
  \<^verbatim>\<open>random.choice\<close> or \<^verbatim>\<open>random.choices\<close> with positive weights: any element may come
  out. The random draw is a parameter, reduced modulo the length.
\<close>

definition random_choice :: "'a list \<Rightarrow> nat \<Rightarrow> 'a" where
  "random_choice xs r = xs ! (r mod length xs)"

text \<open>\<^verbatim>\<open>get_random_question_by_topic_and_difficulty\<close> of chatbot.py.\<close>

definition closest_difficulty :: "string \<Rightarrow> question list \<Rightarrow> string" where
  "closest_difficulty std matching =
     (if \<not> (\<exists>q \<in> set matching. q_difficulty q = std) then
        (if std = ''Medium'' then
           (if \<exists>q \<in> set matching. q_difficulty q = ''Easy'' then ''Easy'' else ''Hard'')
         else if std = ''Easy'' then ''Medium''
         else if std = ''Hard'' then ''Medium''
         else std)
      else std)"

definition any_difficulty_matches :: "string \<Rightarrow> string \<Rightarrow> question list \<Rightarrow> question list" where
  "any_difficulty_matches topic std all_mcqs =
     (let matching = filter (\<lambda>q. str_in (lower topic) (lower (q_topic q))) all_mcqs in
      if matching \<noteq> [] then
        (let closest_matches =
               filter (\<lambda>q. q_difficulty q = closest_difficulty std matching) matching
         in if closest_matches \<noteq> [] then closest_matches else matching)
      else matching)"

definition random_candidates :: "string \<Rightarrow> string \<Rightarrow> question list \<Rightarrow> question list" where
  "random_candidates topic difficulty all_mcqs =
     (let std = std_difficulty difficulty;
          m1 = exact_matches topic std all_mcqs;
          m2 = (if m1 = [] then variation_matches topic std all_mcqs else m1);
          m3 = (if m2 = [] then
                  filter (\<lambda>q. str_in (lower topic) (lower (q_topic q)) \<and>
                               str_in (lower std) (lower (q_difficulty q))) all_mcqs
                else m2);
          m4 = (if m3 = [] then any_difficulty_matches topic std all_mcqs else m3)
      in m4)"

definition get_random_question_by_topic_and_difficulty ::
  "string \<Rightarrow> string \<Rightarrow> question list \<Rightarrow> nat \<Rightarrow> question option" where
  "get_random_question_by_topic_and_difficulty topic difficulty all_mcqs r =
     (let matching_questions = random_candidates topic difficulty all_mcqs in
      if matching_questions = [] then None else Some (random_choice matching_questions r))"

section \<open>Sessions and the store\<close>

text \<open>
  The adaptive session dict of \<^verbatim>\<open>start_adaptive_test_session\<close>. The per-topic dicts are
  read by the source with \<^verbatim>\<open>.get(topic, default)\<close>, or initialised with that default when
  the key is missing and then indexed, so each is read in the model with \<open>dict_get\<close> and
  the default: 0 for the counters, \<^verbatim>\<open>False\<close> for the flag, the empty list for the asked
  question ids (the nested dict \<^verbatim>\<open>questions_asked[topic][difficulty]\<close> is keyed by the
  pair), and \<open>initial_first_state\<close> for the first-question state.
  \<^verbatim>\<open>used_question_hashes\<close> is a set, stored as a list in JSON.
\<close>

text \<open>
  A dict with the lookup \<^verbatim>\<open>d.get(key, default)\<close> and the assignment \<^verbatim>\<open>d[key] = value\<close>,
  as an association list in insertion order.
\<close>

definition dict_get :: "('k \<times> 'v) list \<Rightarrow> 'k \<Rightarrow> 'v \<Rightarrow> 'v" where
  "dict_get d key dflt = (case map_of d key of Some v \<Rightarrow> v | None \<Rightarrow> dflt)"

fun dict_set :: "'k \<Rightarrow> 'v \<Rightarrow> ('k \<times> 'v) list \<Rightarrow> ('k \<times> 'v) list" where
  "dict_set key v [] = [(key, v)]"
| "dict_set key v ((k, w) # d) = (if k = key then (key, v) # d else (k, w) # dict_set key v d)"

record first_state =
  is_first_question :: bool
  first_was_medium :: bool
  gave_second_easy :: bool

definition initial_first_state :: first_state where
  "initial_first_state =
     \<lparr>is_first_question = True, first_was_medium = False, gave_second_easy = False\<rparr>"

record answer =
  a_topic :: string
  a_difficulty :: string
  a_correct :: bool

record adaptive_session =
  topics :: "string list"
  remaining_topics :: "string list"
  completed_topics :: "string list"
  current_question :: "question option"
  weak_topics :: "string list"
  passed_topics :: "string list"
  needs_more_training :: "string list"
  answers :: "answer list"
  questions_asked :: "((string \<times> string) \<times> string list) list"
  topic_question_count :: "(string \<times> nat) list"
  first_question_state :: "(string \<times> first_state) list"
  hard_failures_count :: "(string \<times> nat) list"
  easy_attempts_after_medium :: "(string \<times> nat) list"
  came_from_hard_failure :: "(string \<times> bool) list"
  used_question_hashes :: "qhash list"

text \<open>
  The session dict of a sequential test (a reevaluation test of chatbot.py, or an exam of
  \<^verbatim>\<open>UserTracker.start_test_session\<close>, which has no \<^verbatim>\<open>topics\<close> key).
\<close>

record sequential_session =
  test_type :: string
  questions :: "question list"
  current_question_index :: nat
  correct_answers :: int
  incorrect_topics :: "string list"
  s_topic :: string
  s_topics :: "string list option"
  is_sequential :: bool
  user_answers :: "string list"

text \<open>A session is told apart by its \<^verbatim>\<open>test_type\<close>: \<^verbatim>\<open>"Adaptive Test"\<close> or another.\<close>

datatype session = Adaptive adaptive_session | Sequential sequential_session

record test_result =
  tr_test_type :: string
  tr_topics :: "string list"
  tr_weak_topics :: "string list"
  tr_passed_topics :: "string list"
  tr_needs_more_training :: "string list"
  tr_score :: "(int \<times> int) option"

text \<open>
  The entry of one learner in the in-memory \<^verbatim>\<open>user_data\<close> cache, and the learner's rows
  in the database. \<^verbatim>\<open>rand\<close> is the source of the random draws still to come.
\<close>

record user_info =
  current_test_session :: "session option"
  weak_topic_pool :: "string list"
  needs_more_training_pool :: "string list"

record store =
  user_data :: "user_info option"
  db_session :: "session option"
  db_weak_topics :: "string list"
  db_needs_training :: "string list"
  db_tests :: "test_result list"
  rand :: "nat list"

definition draw :: "store \<Rightarrow> nat \<times> store" where
  "draw st = (case rand st of [] \<Rightarrow> (0, st) | r # rs \<Rightarrow> (r, st\<lparr>rand := rs\<rparr>))"

subsection \<open>DatabaseManager\<close>

definition save_user_session :: "session option \<Rightarrow> store \<Rightarrow> store" where
  "save_user_session session_data st = st\<lparr>db_session := session_data\<rparr>"

definition clear_user_session :: "store \<Rightarrow> store" where
  "clear_user_session st = st\<lparr>db_session := None\<rparr>"

text \<open>\<^verbatim>\<open>INSERT OR IGNORE\<close> into a table with \<^verbatim>\<open>UNIQUE(user_id, topic)\<close>.\<close>

definition insert_or_ignore :: "string \<Rightarrow> string list \<Rightarrow> string list" where
  "insert_or_ignore topic pool = (if topic \<in> set pool then pool else pool @ [topic])"

definition add_weak_topic :: "string \<Rightarrow> store \<Rightarrow> store" where
  "add_weak_topic topic st = st\<lparr>db_weak_topics := insert_or_ignore topic (db_weak_topics st)\<rparr>"

definition add_needs_training_topic :: "string \<Rightarrow> store \<Rightarrow> store" where
  "add_needs_training_topic topic st =
     st\<lparr>db_needs_training := insert_or_ignore topic (db_needs_training st)\<rparr>"

definition save_user_test :: "test_result \<Rightarrow> store \<Rightarrow> store" where
  "save_user_test r st = st\<lparr>db_tests := r # db_tests st\<rparr>"

subsection \<open>The cache of chatbot.py\<close>

definition get_user_data :: "store \<Rightarrow> user_info" where
  "get_user_data st =
     \<lparr>current_test_session = db_session st,
      weak_topic_pool = db_weak_topics st,
      needs_more_training_pool = db_needs_training st\<rparr>"

definition save_user_data :: "store \<Rightarrow> store" where
  "save_user_data st =
     (case user_data st of
        None \<Rightarrow> st
      | Some data \<Rightarrow>
          fold add_needs_training_topic (needs_more_training_pool data)
            (fold add_weak_topic (weak_topic_pool data)
               (save_user_session (current_test_session data) st)))"

text \<open>\<^verbatim>\<open>user_data.get(user_id, {}).get("current_test_session")\<close>\<close>

definition cached_session :: "store \<Rightarrow> session option" where
  "cached_session st =
     (case user_data st of None \<Rightarrow> None | Some data \<Rightarrow> current_test_session data)"

text \<open>\<^verbatim>\<open>if user_id in user_data: user_data[user_id]["current_test_session"] = s\<close>\<close>

definition set_cached_session :: "session option \<Rightarrow> store \<Rightarrow> store" where
  "set_cached_session s st =
     (case user_data st of
        None \<Rightarrow> st
      | Some data \<Rightarrow> st\<lparr>user_data := Some (data\<lparr>current_test_session := s\<rparr>)\<rparr>)"

text \<open>
  The cached adaptive session is a Python object that \<^verbatim>\<open>process_adaptive_answer\<close> and
  the functions it calls mutate in place; \<open>upd_session\<close> is such a mutation and
  \<open>the_session\<close> reads the object. Both are used only where the source has checked that
  the cached session is an adaptive one.
\<close>

definition new_adaptive_session :: "string list \<Rightarrow> adaptive_session" where
  "new_adaptive_session ts =
     \<lparr>topics = ts, remaining_topics = ts, completed_topics = [], current_question = None,
      weak_topics = [], passed_topics = [], needs_more_training = [], answers = [],
      questions_asked = [], topic_question_count = [], first_question_state = [],
      hard_failures_count = [], easy_attempts_after_medium = [],
      came_from_hard_failure = [], used_question_hashes = []\<rparr>"

definition upd_session :: "(adaptive_session \<Rightarrow> adaptive_session) \<Rightarrow> store \<Rightarrow> store" where
  "upd_session f st =
     (case cached_session st of
        Some (Adaptive s) \<Rightarrow> set_cached_session (Some (Adaptive (f s))) st
      | _ \<Rightarrow> st)"

definition the_session :: "store \<Rightarrow> adaptive_session" where
  "the_session st =
     (case cached_session st of Some (Adaptive s) \<Rightarrow> s | _ \<Rightarrow> new_adaptive_session [])"

definition start_adaptive_test_session :: "string list \<Rightarrow> store \<Rightarrow> store" where
  "start_adaptive_test_session ts st =
     (let session_data = Some (Adaptive (new_adaptive_session ts));
          st1 = save_user_session session_data st
      in case user_data st1 of
           Some data \<Rightarrow> set_cached_session session_data st1
         | None \<Rightarrow> st1\<lparr>user_data := Some (get_user_data st1)\<rparr>)"

definition get_current_adaptive_topic :: "store \<Rightarrow> string option" where
  "get_current_adaptive_topic st =
     (case db_session st of
        Some (Adaptive session) \<Rightarrow>
          (case remaining_topics session of [] \<Rightarrow> None | t # _ \<Rightarrow> Some t)
      | _ \<Rightarrow> None)"

text \<open>
  \<^verbatim>\<open>set_current_adaptive_question\<close> loads the session from the database, stores the
  question and its hash, saves it, and replaces the cached session by a copy of it.
\<close>

definition set_current_adaptive_question :: "question \<Rightarrow> store \<Rightarrow> store" where
  "set_current_adaptive_question q st =
     (case db_session st of
        Some (Adaptive session) \<Rightarrow>
          (let session' = session\<lparr>current_question := Some q,
                 used_question_hashes :=
                   List.insert (get_question_hash q) (used_question_hashes session)\<rparr>
           in set_cached_session (Some (Adaptive session'))
                (save_user_session (Some (Adaptive session')) st))
      | _ \<Rightarrow> st)"

definition record_adaptive_answer :: "bool \<Rightarrow> string \<Rightarrow> string \<Rightarrow> store \<Rightarrow> store" where
  "record_adaptive_answer is_correct topic difficulty st =
     (case cached_session st of
        Some (Adaptive session) \<Rightarrow>
          save_user_data
            (upd_session (\<lambda>s. s\<lparr>answers := answers s @
               [\<lparr>a_topic = topic, a_difficulty = difficulty, a_correct = is_correct\<rparr>]\<rparr>) st)
      | _ \<Rightarrow> st)"

definition move_to_next_adaptive_topic :: "store \<Rightarrow> string option \<times> store" where
  "move_to_next_adaptive_topic st =
     (case cached_session st of
        Some (Adaptive session) \<Rightarrow>
          (let st1 = (case remaining_topics session of
                        [] \<Rightarrow> st
                      | completed_topic # rest \<Rightarrow>
                          upd_session (\<lambda>s. s\<lparr>remaining_topics := rest,
                            completed_topics := completed_topics s @ [completed_topic]\<rparr>) st)
           in case remaining_topics (the_session st1) of
                next_topic # _ \<Rightarrow> (Some next_topic, save_user_data st1)
              | [] \<Rightarrow> (None, save_user_data st1))
      | _ \<Rightarrow> (None, st))"

subsection \<open>The outcome classifier\<close>

text \<open>
  \<^verbatim>\<open>topic_results\<close> of \<^verbatim>\<open>update_adaptive_test_results\<close>: a dict from topic to the number
  of correct answers and the number of answers, in the order in which the topics first
  occur in the answer log.
\<close>

definition count_answer :: "answer \<Rightarrow> (string \<times> nat \<times> nat) list \<Rightarrow> (string \<times> nat \<times> nat) list" where
  "count_answer a tr =
     (let tr' = (if a_topic a \<in> fst ` set tr then tr else tr @ [(a_topic a, 0, 0)])
      in map (\<lambda>(t, c, n). if t = a_topic a
                            then (t, if a_correct a then c + 1 else c, n + 1)
                            else (t, c, n)) tr')"

definition topic_results :: "answer list \<Rightarrow> (string \<times> nat \<times> nat) list" where
  "topic_results as = fold count_answer as []"

text \<open>
  The loop over \<^verbatim>\<open>topic_results.items()\<close>: a topic in \<^verbatim>\<open>needs_more_training\<close> is skipped;
  otherwise \<^verbatim>\<open>correct / total < 0.5\<close> puts it into the weak list and anything else into
  the passed list. The float comparison is the integer comparison \<open>2 * correct < total\<close>.
\<close>

definition classify_weak :: "(string \<times> nat \<times> nat) list \<Rightarrow> string list \<Rightarrow> string list" where
  "classify_weak tr needs =
     map fst (filter (\<lambda>(t, c, n). t \<notin> set needs \<and> 0 < n \<and> 2 * c < n) tr)"

definition classify_passed :: "(string \<times> nat \<times> nat) list \<Rightarrow> string list \<Rightarrow> string list" where
  "classify_passed tr needs =
     map fst (filter (\<lambda>(t, c, n). t \<notin> set needs \<and> 0 < n \<and> \<not> 2 * c < n) tr)"

datatype action_type =
  next_question | topic_complete | warning | mark_weak_and_continue
  | needs_training_complete | topic_max_reached | next_topic | complete | offer_reevaluation

text \<open>
  \<^verbatim>\<open>update_adaptive_test_results\<close> works on a fresh \<^verbatim>\<open>get_user_data\<close>, that is on the
  session stored in the database. On \<^verbatim>\<open>"complete"\<close> it saves the test result, adds the weak
  and needs-training topics to the pools, and clears the stored session; the lists it
  writes into the loaded session dict are not saved. It ends with \<^verbatim>\<open>save_user_data()\<close>.
\<close>

definition adaptive_test_result :: "adaptive_session \<Rightarrow> test_result" where
  "adaptive_test_result session =
     \<lparr>tr_test_type = ''Adaptive Test'',
      tr_topics = topics session,
      tr_weak_topics =
        classify_weak (topic_results (answers session)) (needs_more_training session),
      tr_passed_topics =
        classify_passed (topic_results (answers session)) (needs_more_training session),
      tr_needs_more_training = needs_more_training session,
      tr_score = None\<rparr>"

definition update_adaptive_test_results :: "action_type \<Rightarrow> store \<Rightarrow> store" where
  "update_adaptive_test_results result_type st =
     (case current_test_session (get_user_data st) of
        Some (Adaptive session) \<Rightarrow>
          (let test_result = adaptive_test_result session;
               st1 = (if result_type = complete then
                        clear_user_session
                          (fold add_needs_training_topic (tr_needs_more_training test_result)
                             (fold add_weak_topic (tr_weak_topics test_result)
                                (save_user_test test_result st)))
                      else st)
           in save_user_data st1)
      | _ \<Rightarrow> st)"

subsection \<open>The dedup tracker\<close>

text \<open>
  \<^verbatim>\<open>get_unused_question_by_topic_and_difficulty\<close>. It reads and mutates the cached
  session. Its callers reach it only with an adaptive session in the cache (or none); for
  a cached session of another type the model returns no question.
\<close>

definition add_used_hash :: "question \<Rightarrow> adaptive_session \<Rightarrow> adaptive_session" where
  "add_used_hash q s =
     s\<lparr>used_question_hashes := List.insert (get_question_hash q) (used_question_hashes s)\<rparr>"

definition append_asked :: "string \<Rightarrow> string \<Rightarrow> string \<Rightarrow> adaptive_session \<Rightarrow> adaptive_session" where
  "append_asked topic difficulty question_id s =
     s\<lparr>questions_asked :=
         dict_set (topic, difficulty)
           (dict_get (questions_asked s) (topic, difficulty) [] @ [question_id])
           (questions_asked s)\<rparr>"

definition save_cached_session :: "store \<Rightarrow> store" where
  "save_cached_session st = save_user_session (cached_session st) st"

definition get_unused_question_by_topic_and_difficulty ::
  "string \<Rightarrow> string option \<Rightarrow> question list \<Rightarrow> store \<Rightarrow> question option \<times> store" where
  "get_unused_question_by_topic_and_difficulty topic difficulty_opt all_mcqs st =
     (let difficulty = (case difficulty_opt of None \<Rightarrow> ''Medium'' | Some d \<Rightarrow> d) in
      case cached_session st of
        None \<Rightarrow>
          (let (r, st1) = draw st
           in (get_random_question_by_topic_and_difficulty topic difficulty all_mcqs r, st1))
      | Some (Sequential _) \<Rightarrow> (None, st)
      | Some (Adaptive session) \<Rightarrow>
          (let asked_for_topic_difficulty =
                 dict_get (questions_asked session) (topic, difficulty) [];
               std = std_difficulty difficulty;
               exact = exact_matches topic std all_mcqs;
               matching_questions =
                 (if exact = [] then variation_matches topic std all_mcqs else exact);
               unused_questions =
                 filter (\<lambda>q. get_question_hash q \<notin> set (used_question_hashes session) \<and>
                              take 50 (q_question q) \<notin> set asked_for_topic_difficulty)
                        matching_questions
           in if unused_questions \<noteq> [] then
                (let (r, st1) = draw st;
                     selected_question = random_choice unused_questions r;
                     st2 = upd_session
                             (\<lambda>s. append_asked topic difficulty
                                     (take 50 (q_question selected_question))
                                     (add_used_hash selected_question s)) st1
                 in (Some selected_question, save_cached_session st2))
              else if matching_questions \<noteq> [] then
                (let all_topic_questions =
                       concat (map (\<lambda>alt_difficulty.
                                 if alt_difficulty \<noteq> difficulty
                                 then exact_matches topic alt_difficulty all_mcqs else [])
                               [''Easy'', ''Medium'', ''Hard'']);
                     truly_unused =
                       filter (\<lambda>q. get_question_hash q \<notin> set (used_question_hashes session))
                              all_topic_questions;
                     (r, st1) = draw st;
                     selected_question =
                       (if truly_unused \<noteq> [] then random_choice truly_unused r
                        else random_choice matching_questions r);
                     st2 = upd_session (add_used_hash selected_question) st1
                 in (Some selected_question, save_cached_session st2))
              else
                (let (r, st1) = draw st
                 in (get_random_question_by_topic_and_difficulty topic difficulty all_mcqs r,
                     st1))))"

subsection \<open>The difficulty state machine\<close>

record next_action =
  na_type :: action_type
  na_difficulty :: "string option"
  na_topic :: "string option"
  set_hard_failure_flag :: bool
  reset_hard_failure_flag :: bool

definition action :: "action_type \<Rightarrow> string option \<Rightarrow> string option \<Rightarrow> next_action" where
  "action ty d t =
     \<lparr>na_type = ty, na_difficulty = d, na_topic = t,
      set_hard_failure_flag = False, reset_hard_failure_flag = False\<rparr>"

definition determine_next_adaptive_action ::
  "bool \<Rightarrow> string \<Rightarrow> string \<Rightarrow> nat \<Rightarrow> bool \<Rightarrow> next_action" where
  "determine_next_adaptive_action is_correct current_difficulty current_topic hard_failures
       came_from_hard_failure_flag =
     (if is_correct then
        (if current_difficulty = ''Medium'' then
           (if came_from_hard_failure_flag
            then (action next_question (Some ''Hard'') (Some current_topic))
                   \<lparr>reset_hard_failure_flag := True\<rparr>
            else action next_question (Some ''Hard'') (Some current_topic))
         else if current_difficulty = ''Easy'' then
           action next_question (Some ''Medium'') (Some current_topic)
         else if current_difficulty = ''Hard'' then
           action topic_complete None (Some current_topic)
         else action next_question (Some ''Medium'') (Some current_topic))
      else
        (if current_difficulty = ''Medium'' then
           action next_question (Some ''Easy'') (Some current_topic)
         else if current_difficulty = ''Easy'' then
           action topic_complete None (Some current_topic)
         else if current_difficulty = ''Hard'' then
           (action warning (Some ''Medium'') (Some current_topic))
             \<lparr>set_hard_failure_flag := True\<rparr>
         else action next_question (Some ''Medium'') (Some current_topic)))"

text \<open>
  The error results of the engine: each is a dict with the key \<^verbatim>\<open>error\<close> and a message.
\<close>

datatype error =
  UserSessionNotFound | NoActiveSession | NotAdaptiveSession | NoCurrentQuestion
  | NotReevaluationSession | NotSequentialSession | NoMoreQuestions
  | NotAdvancedReevaluationSession | NoQuestionsForReevaluation | NotEnoughHardQuestions nat
  | SessionNotSaved

record answer_result =
  r_correct :: bool
  r_question :: question
  r_correct_answer :: string
  r_explanation :: string
  r_next_action :: next_action
  r_next_question :: "question option"
  r_show_completion :: "bool option"

definition answer_result_of :: "bool \<Rightarrow> question \<Rightarrow> next_action \<Rightarrow> answer_result" where
  "answer_result_of is_correct current next =
     \<lparr>r_correct = is_correct, r_question = current,
      r_correct_answer = q_correct_answer current, r_explanation = q_explanation current,
      r_next_action = next, r_next_question = None, r_show_completion = None\<rparr>"

text \<open>Python's truth value of an optional string: \<^verbatim>\<open>None\<close> and \<^verbatim>\<open>""\<close> are false.\<close>

definition truthy :: "string option \<Rightarrow> bool" where
  "truthy t = (case t of None \<Rightarrow> False | Some s \<Rightarrow> s \<noteq> [])"

definition upd_first_state :: "string \<Rightarrow> (first_state \<Rightarrow> first_state) \<Rightarrow> store \<Rightarrow> store" where
  "upd_first_state topic f st =
     upd_session (\<lambda>s. s\<lparr>first_question_state :=
        dict_set topic (f (dict_get (first_question_state s) topic initial_first_state))
          (first_question_state s)\<rparr>) st"

text \<open>
  \<^verbatim>\<open>process_adaptive_answer\<close>, in the three parts of its body. Each of the first two
  either returns a result (\<open>Inl\<close>) or falls through to the next part (\<open>Inr\<close>).
  First part: the special first-question sequence.
\<close>

definition first_question_sequence ::
  "bool \<Rightarrow> question \<Rightarrow> question list \<Rightarrow> store \<Rightarrow> (answer_result \<times> store) + store" where
  "first_question_sequence is_correct current all_mcqs st =
     (let current_topic = q_topic current;
          current_difficulty = q_difficulty current;
          first = dict_get (first_question_state (the_session st)) current_topic
                    initial_first_state
      in if is_first_question first then
           (if current_difficulty = ''Medium'' then
              (let st1 = upd_first_state current_topic (\<lambda>f. f\<lparr>first_was_medium := True\<rparr>) st
               in if is_correct
                  then Inr (upd_first_state current_topic
                              (\<lambda>f. f\<lparr>is_first_question := False\<rparr>) st1)
                  else Inr (save_cached_session st1))
            else if current_difficulty = ''Easy'' \<and> first_was_medium first then
              (let st1 = upd_session (\<lambda>s. s\<lparr>easy_attempts_after_medium :=
                           dict_set current_topic
                             (dict_get (easy_attempts_after_medium s) current_topic 0 + 1)
                             (easy_attempts_after_medium s)\<rparr>) st;
                   easy_attempts =
                     dict_get (easy_attempts_after_medium (the_session st1)) current_topic 0
               in if \<not> is_correct then
                    (if easy_attempts < 2 then
                       (let st2 = save_cached_session st1;
                            (next, st3) = get_unused_question_by_topic_and_difficulty
                                             current_topic (Some ''Easy'') all_mcqs st2
                        in case next of
                             Some nq \<Rightarrow>
                               Inl ((answer_result_of is_correct current
                                       (action next_question (Some ''Easy'') (Some current_topic)))
                                      \<lparr>r_next_question := Some nq\<rparr>,
                                    set_current_adaptive_question nq st3)
                           | None \<Rightarrow>
                               Inl (answer_result_of is_correct current
                                      (action mark_weak_and_continue None (Some current_topic)),
                                    save_cached_session
                                      (upd_first_state current_topic
                                         (\<lambda>f. f\<lparr>is_first_question := False\<rparr>) st3)))
                     else
                       Inl (answer_result_of is_correct current
                              (action mark_weak_and_continue None (Some current_topic)),
                            save_cached_session
                              (upd_first_state current_topic
                                 (\<lambda>f. f\<lparr>is_first_question := False\<rparr>) st1)))
                  else Inr (upd_first_state current_topic
                              (\<lambda>f. f\<lparr>is_first_question := False\<rparr>) st1))
            else Inr st)
         else Inr st)"

text \<open>Second part: the count of Hard failures, and the end of the topic at the second.\<close>

definition hard_failure_check ::
  "bool \<Rightarrow> question \<Rightarrow> store \<Rightarrow> (answer_result \<times> store) + store" where
  "hard_failure_check is_correct current st =
     (let current_topic = q_topic current in
      if q_difficulty current = ''Hard'' \<and> \<not> is_correct then
        (let st1 = save_cached_session
                     (upd_session (\<lambda>s. s\<lparr>hard_failures_count :=
                        dict_set current_topic
                          (dict_get (hard_failures_count s) current_topic 0 + 1)
                          (hard_failures_count s)\<rparr>) st)
         in if 2 \<le> dict_get (hard_failures_count (the_session st1)) current_topic 0 then
              Inl (answer_result_of is_correct current
                     (action needs_training_complete None (Some current_topic)),
                   save_cached_session
                     (upd_session (\<lambda>s. s\<lparr>needs_more_training :=
                        (if current_topic \<in> set (needs_more_training s)
                         then needs_more_training s
                         else needs_more_training s @ [current_topic])\<rparr>) st1))
            else Inr st1)
      else Inr st)"

text \<open>
  Third part: the tracking of the question and of the per-topic count, the next action,
  the flag updates, the completion of the topic, the ceiling and the next question.
\<close>

definition track_question :: "question \<Rightarrow> adaptive_session \<Rightarrow> adaptive_session" where
  "track_question current s =
     (let current_topic = q_topic current;
          current_difficulty = q_difficulty current;
          question_id = take 50 (q_question current);
          s1 = (if question_id
                     \<in> set (dict_get (questions_asked s) (current_topic, current_difficulty) [])
                then s else append_asked current_topic current_difficulty question_id s)
      in s1\<lparr>topic_question_count :=
              dict_set current_topic (dict_get (topic_question_count s1) current_topic 0 + 1)
                (topic_question_count s1)\<rparr>)"

definition update_flags :: "string \<Rightarrow> next_action \<Rightarrow> adaptive_session \<Rightarrow> adaptive_session" where
  "update_flags current_topic next s =
     (let s1 = (if set_hard_failure_flag next
                then s\<lparr>came_from_hard_failure :=
                        dict_set current_topic True (came_from_hard_failure s)\<rparr>
                else s)
      in if reset_hard_failure_flag next
         then s1\<lparr>came_from_hard_failure :=
                 dict_set current_topic False (came_from_hard_failure s1)\<rparr>
         else s1)"

definition finish_topic ::
  "answer_result \<Rightarrow> question list \<Rightarrow> store \<Rightarrow> answer_result \<times> store" where
  "finish_topic result all_mcqs st =
     (let (next_topic_opt, st1) = move_to_next_adaptive_topic st in
      if truthy next_topic_opt then
        (let (next, st2) = get_unused_question_by_topic_and_difficulty
                             (case next_topic_opt of Some t \<Rightarrow> t | None \<Rightarrow> [])
                             (Some ''Medium'') all_mcqs st1
         in case next of
              Some nq \<Rightarrow>
                (result\<lparr>r_next_question := Some nq,
                        r_next_action := action next_topic None next_topic_opt\<rparr>,
                 set_current_adaptive_question nq st2)
            | None \<Rightarrow>
                (result\<lparr>r_show_completion := Some True\<rparr>,
                 update_adaptive_test_results complete st2))
      else (result\<lparr>r_show_completion := Some True\<rparr>,
            update_adaptive_test_results complete st1))"

definition fetch_next_question ::
  "bool \<Rightarrow> string \<Rightarrow> string option \<Rightarrow> question list \<Rightarrow> store \<Rightarrow> question option \<times> store" where
  "fetch_next_question is_critical_hard_retry topic difficulty all_mcqs st =
     (let (next, st1) = get_unused_question_by_topic_and_difficulty topic difficulty all_mcqs st;
          (next1, st2) =
             (if is_critical_hard_retry \<and> next = None then
                (let (r, sa) = draw st1
                 in (get_random_question_by_topic_and_difficulty topic
                       (case difficulty of Some d \<Rightarrow> d | None \<Rightarrow> []) all_mcqs r, sa))
              else (next, st1))
      in if next1 = None then
           (case cached_session st2 of
              Some (Adaptive session) \<Rightarrow>
                (if remaining_topics session \<noteq> [] then
                   (let (next_topic_opt, st3) = move_to_next_adaptive_topic st2 in
                    if truthy next_topic_opt then
                      get_unused_question_by_topic_and_difficulty
                        (case next_topic_opt of Some t \<Rightarrow> t | None \<Rightarrow> [])
                        (Some ''Medium'') all_mcqs st3
                    else (None, st3))
                 else (None, st2))
            | _ \<Rightarrow> (None, st2))
         else (next1, st2))"

definition regular_adaptive_logic ::
  "bool \<Rightarrow> question \<Rightarrow> question list \<Rightarrow> store \<Rightarrow> answer_result \<times> store" where
  "regular_adaptive_logic is_correct current all_mcqs st =
     (let current_topic = q_topic current;
          current_difficulty = q_difficulty current;
          st1 = upd_session (track_question current) st;
          hard_failures = dict_get (hard_failures_count (the_session st1)) current_topic 0;
          came = dict_get (came_from_hard_failure (the_session st1)) current_topic False;
          next = determine_next_adaptive_action is_correct current_difficulty current_topic
                   hard_failures came;
          is_critical_hard_retry =
            (na_type next = next_question \<and> na_difficulty next = Some ''Hard'' \<and> came);
          st2 = upd_session (update_flags current_topic next) st1;
          next' = next\<lparr>set_hard_failure_flag := False, reset_hard_failure_flag := False\<rparr>;
          result = answer_result_of is_correct current next'
      in if na_type next' \<in> {complete, offer_reevaluation, topic_complete} then
           (if na_type next' = topic_complete then finish_topic result all_mcqs st2
            else (result\<lparr>r_show_completion := Some (na_type next' = complete)\<rparr>,
                  update_adaptive_test_results (na_type next') st2))
         else if 5 \<le> dict_get (topic_question_count (the_session st2)) current_topic 0
                 \<and> \<not> is_critical_hard_retry then
           (answer_result_of is_correct current
              (action topic_max_reached None (Some current_topic)), st2)
         else
           (let (next_q, st3) =
                  fetch_next_question is_critical_hard_retry
                    (case na_topic next' of Some t \<Rightarrow> t | None \<Rightarrow> current_topic)
                    (na_difficulty next') all_mcqs st2
            in case next_q of
                 Some nq \<Rightarrow> (result\<lparr>r_next_question := Some nq\<rparr>,
                             set_current_adaptive_question nq st3)
               | None \<Rightarrow> (result\<lparr>r_next_action := action complete None None,
                                  r_show_completion := Some True\<rparr>,
                           update_adaptive_test_results complete st3)))"

definition process_adaptive_answer ::
  "string \<Rightarrow> question list \<Rightarrow> store \<Rightarrow> (error + answer_result) \<times> store" where
  "process_adaptive_answer answer all_mcqs st =
     (case user_data st of
        None \<Rightarrow> (Inl UserSessionNotFound, st)
      | Some data \<Rightarrow>
         (case current_test_session data of
            None \<Rightarrow> (Inl NoActiveSession, st)
          | Some (Sequential _) \<Rightarrow> (Inl NotAdaptiveSession, st)
          | Some (Adaptive session) \<Rightarrow>
             (case current_question session of
                None \<Rightarrow> (Inl NoCurrentQuestion, st)
              | Some current \<Rightarrow>
                 (let is_correct = (upper answer = upper (q_correct_answer current));
                      st1 = record_adaptive_answer is_correct (q_topic current)
                              (q_difficulty current) st
                  in case first_question_sequence is_correct current all_mcqs st1 of
                       Inl (result, st2) \<Rightarrow> (Inr result, st2)
                     | Inr st2 \<Rightarrow>
                        (case hard_failure_check is_correct current st2 of
                           Inl (result, st3) \<Rightarrow> (Inr result, st3)
                         | Inr st3 \<Rightarrow>
                            (let (result, st4) =
                                   regular_adaptive_logic is_correct current all_mcqs st3
                             in (Inr result, st4)))))))"

subsection \<open>The caller of the engine\<close>

text \<open>
  The \<^verbatim>\<open>start_test\<close> and \<^verbatim>\<open>adaptive_answer\<close> branches of \<^verbatim>\<open>button_handler\<close>, with the
  messages left out: what remains is the question sent to the learner, if any, and the
  store. \<^verbatim>\<open>show_adaptive_test_completion\<close> ends by clearing the session in the cache and
  in the database.
\<close>

definition show_adaptive_test_completion :: "store \<Rightarrow> store" where
  "show_adaptive_test_completion st =
     (let has_latest_test =
            ((\<exists>t \<in> set (take 5 (db_tests st)). tr_test_type t = ''Adaptive Test'')
             \<or> (case db_session st of Some (Adaptive _) \<Rightarrow> True | _ \<Rightarrow> False));
          st1 = (case user_data st of
                   Some data \<Rightarrow> set_cached_session None st
                 | None \<Rightarrow>
                     if has_latest_test
                     then st\<lparr>user_data := Some ((get_user_data st)\<lparr>current_test_session := None\<rparr>)\<rparr>
                     else st)
      in save_user_data (clear_user_session st1))"

definition start_test :: "string list \<Rightarrow> question list \<Rightarrow> store \<Rightarrow> question option \<times> store" where
  "start_test selected_topics all_mcqs st =
     (if selected_topics = [] then (None, st)
      else
        (let st1 = start_adaptive_test_session selected_topics st in
         case get_current_adaptive_topic st1 of
           None \<Rightarrow> (None, st1)
         | Some first_topic \<Rightarrow>
             (if first_topic = [] then (None, st1)
              else
                (let (r, st2) = draw st1 in
                 case get_random_question_by_topic_and_difficulty first_topic ''Medium''
                        all_mcqs r of
                   None \<Rightarrow> (None, st2)
                 | Some first_question \<Rightarrow>
                     (Some first_question, set_current_adaptive_question first_question st2)))))"

definition complete_adaptive_test :: "store \<Rightarrow> question option \<times> store" where
  "complete_adaptive_test st =
     (None, show_adaptive_test_completion (update_adaptive_test_results complete st))"

text \<open>
  After a topic has ended the handler moves to the next topic. For
  \<^verbatim>\<open>mark_weak_and_continue\<close> and \<^verbatim>\<open>topic_complete\<close> it takes the first question of the
  next topic with \<^verbatim>\<open>get_random_question_by_topic_and_difficulty\<close> (\<open>unused = False\<close>), for
  \<^verbatim>\<open>topic_max_reached\<close> and \<^verbatim>\<open>needs_training_complete\<close> with
  \<^verbatim>\<open>get_unused_question_by_topic_and_difficulty\<close> (\<open>unused = True\<close>).
\<close>

definition continue_with_next_topic ::
  "bool \<Rightarrow> question list \<Rightarrow> store \<Rightarrow> question option \<times> store" where
  "continue_with_next_topic unused all_mcqs st =
     (let (next_topic_opt, st1) = move_to_next_adaptive_topic st in
      if truthy next_topic_opt then
        (let topic = (case next_topic_opt of Some t \<Rightarrow> t | None \<Rightarrow> []);
             (next, st2) =
               (if unused
                then get_unused_question_by_topic_and_difficulty topic (Some ''Medium'')
                       all_mcqs st1
                else (let (r, sa) = draw st1
                      in (get_random_question_by_topic_and_difficulty topic ''Medium''
                            all_mcqs r, sa)))
         in case next of
              Some nq \<Rightarrow> (Some nq, set_current_adaptive_question nq st2)
            | None \<Rightarrow> complete_adaptive_test st2)
      else complete_adaptive_test st1)"

definition adaptive_answer_handler ::
  "string \<Rightarrow> question list \<Rightarrow> store \<Rightarrow> question option \<times> store" where
  "adaptive_answer_handler answer all_mcqs st =
     (case process_adaptive_answer answer all_mcqs st of
        (Inl e, st1) \<Rightarrow> (None, st1)
      | (Inr result, st1) \<Rightarrow>
          (let action_type = na_type (r_next_action result) in
           if action_type = mark_weak_and_continue \<or> action_type = topic_complete
           then continue_with_next_topic False all_mcqs st1
           else if action_type = topic_max_reached \<or> action_type = needs_training_complete
           then continue_with_next_topic True all_mcqs st1
           else if action_type = complete then complete_adaptive_test st1
           else (case r_next_question result of
                   Some nq \<Rightarrow> (Some nq, st1)
                 | None \<Rightarrow> complete_adaptive_test st1)))"

text \<open>
  A whole conversation: the test is started, each answer is handled in turn, and the
  questions sent to the learner are collected in order.
\<close>

fun handle_answers ::
  "string list \<Rightarrow> question list \<Rightarrow> store \<Rightarrow> question list \<times> store" where
  "handle_answers [] all_mcqs st = ([], st)"
| "handle_answers (a # as) all_mcqs st =
     (let (sent, st1) = adaptive_answer_handler a all_mcqs st;
          (rest, st2) = handle_answers as all_mcqs st1
      in ((case sent of Some q \<Rightarrow> [q] | None \<Rightarrow> []) @ rest, st2))"

definition run_adaptive_test ::
  "string list \<Rightarrow> string list \<Rightarrow> question list \<Rightarrow> store \<Rightarrow> question list \<times> store" where
  "run_adaptive_test selected_topics answer_letters all_mcqs st =
     (let (first, st1) = start_test selected_topics all_mcqs st;
          (rest, st2) = handle_answers answer_letters all_mcqs st1
      in ((case first of Some q \<Rightarrow> [q] | None \<Rightarrow> []) @ rest, st2))"

definition empty_store :: "nat list \<Rightarrow> store" where
  "empty_store rs =
     \<lparr>user_data = None, db_session = None, db_weak_topics = [], db_needs_training = [],
      db_tests = [], rand = rs\<rparr>"

section \<open>Follow-up tests\<close>

definition opt_list :: "'a option \<Rightarrow> 'a list" where
  "opt_list x = (case x of None \<Rightarrow> [] | Some y \<Rightarrow> [y])"

definition new_sequential_session :: "string \<Rightarrow> string \<Rightarrow> question list \<Rightarrow> sequential_session" where
  "new_sequential_session ty topic qs =
     \<lparr>test_type = ty, questions = qs, current_question_index = 0, correct_answers = 0,
      incorrect_topics = [], s_topic = topic, s_topics = Some [topic], is_sequential = True,
      user_answers = []\<rparr>"

text \<open>
  Saving a new follow-up session: to the database, into the cache (the cache entry of the
  learner is created from the database when missing), and \<^verbatim>\<open>save_user_data()\<close>.
\<close>

definition install_session :: "sequential_session \<Rightarrow> store \<Rightarrow> store" where
  "install_session session_data st =
     (let st1 = save_user_session (Some (Sequential session_data)) st;
          st2 = (case user_data st1 of
                   None \<Rightarrow> st1\<lparr>user_data := Some (get_user_data st1)\<rparr>
                 | Some _ \<Rightarrow> st1)
      in save_user_data (set_cached_session (Some (Sequential session_data)) st2))"

text \<open>\<^verbatim>\<open>start_reevaluation_test\<close> of chatbot.py (the Standard follow-up builder).\<close>

definition start_reevaluation_test ::
  "string \<Rightarrow> question list \<Rightarrow> store \<Rightarrow> (error + question) \<times> store" where
  "start_reevaluation_test topic all_mcqs st =
     (let (r1, st1) = draw st;
          easy_question = get_random_question_by_topic_and_difficulty topic ''Easy'' all_mcqs r1;
          (r2, st2) = draw st1;
          medium_question =
            get_random_question_by_topic_and_difficulty topic ''Medium'' all_mcqs r2;
          (r3, st3) = draw st2;
          hard_question = get_random_question_by_topic_and_difficulty topic ''Hard'' all_mcqs r3;
          qs = opt_list easy_question @ opt_list medium_question @ opt_list hard_question
      in case qs of
           [] \<Rightarrow> (Inl NoQuestionsForReevaluation, st3)
         | first_question # _ \<Rightarrow>
             (Inr first_question,
              install_session
                (new_sequential_session (''Reevaluation: '' @ topic) topic qs) st3))"

text \<open>
  \<^verbatim>\<open>random.sample(xs, k)\<close> and \<^verbatim>\<open>random.shuffle(xs)\<close>: positions are drawn one after the
  other without replacement.
\<close>

fun random_sample :: "'a list \<Rightarrow> nat \<Rightarrow> nat list \<Rightarrow> 'a list" where
  "random_sample xs 0 rs = []"
| "random_sample xs (Suc k) rs =
     (if xs = [] then []
      else (let i = (case rs of [] \<Rightarrow> 0 | r # _ \<Rightarrow> r) mod length xs
            in xs ! i # random_sample (take i xs @ drop (Suc i) xs) k (tl rs)))"

definition draws :: "nat \<Rightarrow> store \<Rightarrow> nat list \<times> store" where
  "draws k st = (take k (rand st), st\<lparr>rand := drop k (rand st)\<rparr>)"

text \<open>The removal of duplicates: the first 100 characters of the question text decide.\<close>

fun unique_questions :: "question list \<Rightarrow> string list \<Rightarrow> question list" where
  "unique_questions [] question_texts = []"
| "unique_questions (q # qs) question_texts =
     (let question_text = take 100 (q_question q)
      in if question_text \<in> set question_texts then unique_questions qs question_texts
         else q # unique_questions qs (question_text # question_texts))"

definition hard_candidates :: "string \<Rightarrow> question list \<Rightarrow> question list" where
  "hard_candidates topic all_mcqs =
     (let matching = exact_matches topic ''Hard'' all_mcqs;
          hard_questions =
            (if matching = [] then variation_matches topic ''Hard'' all_mcqs else matching)
      in unique_questions hard_questions [])"

text \<open>
  \<^verbatim>\<open>if len(questions) > 3: questions = random.sample(questions, 3)\<close>, followed by
  \<^verbatim>\<open>random.shuffle(questions)\<close>.
\<close>

definition sample_and_shuffle :: "question list \<Rightarrow> store \<Rightarrow> question list \<times> store" where
  "sample_and_shuffle qs st =
     (let (rs1, st1) = (if 3 < length qs then draws 3 st else ([], st));
          qs1 = (if 3 < length qs then random_sample qs 3 rs1 else qs);
          (rs2, st2) = draws (length qs1) st1
      in (random_sample qs1 (length qs1) rs2, st2))"

text \<open>
  \<^verbatim>\<open>start_advanced_reevaluation_test\<close> (the Advanced follow-up builder). It ends by
  loading the session back from the database to verify that it was saved.
\<close>

definition start_advanced_reevaluation_test ::
  "string \<Rightarrow> question list \<Rightarrow> store \<Rightarrow> (error + question) \<times> store" where
  "start_advanced_reevaluation_test topic all_mcqs st =
     (let st1 = set_cached_session None (clear_user_session st);
          qs = hard_candidates topic all_mcqs
      in if length qs < 2 then (Inl (NotEnoughHardQuestions (length qs)), st1)
         else
           (let (qs2, st2) = sample_and_shuffle qs st1;
                st3 = install_session
                        (new_sequential_session (''Advanced Reevaluation: '' @ topic) topic qs2)
                        st2
            in case db_session st3 of
                 None \<Rightarrow> (Inl SessionNotSaved, st3)
               | Some _ \<Rightarrow>
                   (case qs2 of
                      [] \<Rightarrow> (Inl SessionNotSaved, st3)
                    | first_question # _ \<Rightarrow> (Inr first_question, st3))))"

record followup_result =
  f_correct :: bool
  f_question :: question
  f_correct_answer :: string
  f_explanation :: string
  f_test_completed :: bool
  f_test_results :: "test_result option"
  f_next_question :: "question option"

text \<open>
  The part that \<^verbatim>\<open>process_reevaluation_answer\<close> and
  \<^verbatim>\<open>process_reevaluation_answer_advanced\<close> share: the answer is marked, the index moves
  on, the session is saved, and at the last question the test is completed. The two differ
  in the test of the session type, in the weak-mark condition (\<open>still_weak\<close>, from the
  number of correct answers and the number of questions) and in the reported test type.
\<close>

definition mark_sequential_answer :: "string \<Rightarrow> sequential_session \<Rightarrow> bool \<times> sequential_session" where
  "mark_sequential_answer answer session =
     (let question = questions session ! current_question_index session;
          is_correct = (upper answer = upper (q_correct_answer question));
          session1 =
            (if is_correct then session\<lparr>correct_answers := correct_answers session + 1\<rparr>
             else (let topic = q_topic question
                   in if topic \<noteq> [] \<and> topic \<notin> set (incorrect_topics session)
                      then session\<lparr>incorrect_topics := incorrect_topics session @ [topic]\<rparr>
                      else session))
      in (is_correct, session1\<lparr>current_question_index := current_question_index session + 1\<rparr>))"

definition sequential_answer_step ::
  "(int \<Rightarrow> int \<Rightarrow> bool) \<Rightarrow> (sequential_session \<Rightarrow> string) \<Rightarrow> string \<Rightarrow> sequential_session
     \<Rightarrow> store \<Rightarrow> followup_result \<times> store" where
  "sequential_answer_step still_weak reported_type answer session st =
     (let question = questions session ! current_question_index session;
          (is_correct, session1) = mark_sequential_answer answer session;
          st1 = save_user_data
                  (set_cached_session (Some (Sequential session1))
                     (save_user_session (Some (Sequential session1)) st));
          test_completed = (length (questions session) \<le> current_question_index session1);
          result = \<lparr>f_correct = is_correct, f_question = question,
                    f_correct_answer = q_correct_answer question,
                    f_explanation = q_explanation question,
                    f_test_completed = test_completed,
                    f_test_results = None, f_next_question = None\<rparr>
      in if test_completed then
           (let ts = (case s_topics session1 of Some l \<Rightarrow> l | None \<Rightarrow> [s_topic session1]);
                total_questions = int (length (questions session));
                weak = (if still_weak (correct_answers session1) total_questions then ts else []);
                test_result =
                  \<lparr>tr_test_type = reported_type session1, tr_topics = ts,
                   tr_weak_topics = weak, tr_passed_topics = [], tr_needs_more_training = [],
                   tr_score = Some (correct_answers session1, total_questions)\<rparr>;
                st2 = fold add_weak_topic weak (save_user_test test_result st1);
                st3 = save_user_data (clear_user_session (set_cached_session None st2))
            in (result\<lparr>f_test_results := Some test_result\<rparr>, st3))
         else
           (result\<lparr>f_next_question :=
                     Some (questions session ! current_question_index session1)\<rparr>, st1))"

definition process_reevaluation_answer ::
  "string \<Rightarrow> store \<Rightarrow> (error + followup_result) \<times> store" where
  "process_reevaluation_answer answer st =
     (case db_session st of
        None \<Rightarrow> (Inl NoActiveSession, st)
      | Some (Adaptive _) \<Rightarrow> (Inl NotReevaluationSession, st)
      | Some (Sequential session) \<Rightarrow>
          (if \<not> startswith (test_type session) ''Reevaluation''
              \<or> str_in ''Advanced'' (test_type session)
           then (Inl NotReevaluationSession, st)
           else if \<not> is_sequential session then (Inl NotSequentialSession, st)
           else if length (questions session) \<le> current_question_index session
           then (Inl NoMoreQuestions, st)
           else
             (let (result, st1) =
                    sequential_answer_step
                      (\<lambda>correct total. correct < (total * 2) div 3)
                      (\<lambda>s. ''Reevaluation: '' @
                            (case s_topics s of Some l \<Rightarrow>
                                 (case l of [] \<Rightarrow> ''Unknown'' | t # _ \<Rightarrow> t)
                             | None \<Rightarrow> s_topic s))
                      answer session st
              in (Inr result, st1))))"

text \<open>
  The Advanced weak-mark condition is \<^verbatim>\<open>correct_answers < total_questions * 0.8\<close>, that is
  \<open>5 * correct < 4 * total\<close>.
\<close>

definition process_reevaluation_answer_advanced ::
  "string \<Rightarrow> store \<Rightarrow> (error + followup_result) \<times> store" where
  "process_reevaluation_answer_advanced answer st =
     (case db_session st of
        None \<Rightarrow> (Inl NoActiveSession, st)
      | Some (Adaptive _) \<Rightarrow> (Inl NotAdvancedReevaluationSession, st)
      | Some (Sequential session) \<Rightarrow>
          (if \<not> startswith (test_type session) ''Advanced Reevaluation''
           then (Inl NotAdvancedReevaluationSession, st)
           else if length (questions session) \<le> current_question_index session
           then (Inl NoMoreQuestions, st)
           else
             (let (result, st1) =
                    sequential_answer_step
                      (\<lambda>correct total. 5 * correct < 4 * total)
                      test_type answer session st
              in (Inr result, st1))))"

section \<open>Fixed exams: UserTracker\<close>




section \<open>Reading the cache\<close>

text \<open>The weak and needs-training pools of the learner's cache entry (empty without one).\<close>

definition cached_weak_pool :: "store \<Rightarrow> string list" where
  "cached_weak_pool st = (case user_data st of None \<Rightarrow> [] | Some data \<Rightarrow> weak_topic_pool data)"

definition cached_needs_pool :: "store \<Rightarrow> string list" where
  "cached_needs_pool st = (case user_data st of None \<Rightarrow> [] | Some data \<Rightarrow> needs_more_training_pool data)"

section \<open>Example data\<close>

text \<open>A question with two choices, of which \<open>A\<close> is the correct one.\<close>

definition mcq :: "string \<Rightarrow> string \<Rightarrow> string \<Rightarrow> question" where
  "mcq topic difficulty text =
     \<lparr>q_topic = topic, q_difficulty = difficulty, q_question = text,
      q_choices = [(''A'', ''yes''), (''B'', ''no'')], q_correct_answer = ''A'',
      q_explanation = ''because''\<rparr>"

text \<open>A Standard follow-up session that has a single question, stored in the database.\<close>

definition single_question_session :: sequential_session where
  "single_question_session =
     new_sequential_session ''Reevaluation: Queues'' ''Queues'' [mcq ''Queues'' ''Easy'' ''E1'']"

definition single_question_store :: store where
  "single_question_store =
     (empty_store [])\<lparr>db_session := Some (Sequential single_question_session),
                        db_weak_topics := [''Queues'']\<rparr>"

text \<open>
  A topic with three Medium, two Easy and two Hard questions; a topic with one question of
  each difficulty; a topic that has Medium questions only; a topic with a single Hard
  question, with two, and with a full set.
\<close>

definition seven_bank :: "question list" where
  "seven_bank =
     [mcq ''Stacks'' ''Medium'' ''M1'', mcq ''Stacks'' ''Medium'' ''M2'',
      mcq ''Stacks'' ''Medium'' ''M3'', mcq ''Stacks'' ''Easy'' ''E1'',
      mcq ''Stacks'' ''Easy'' ''E2'', mcq ''Stacks'' ''Hard'' ''H1'',
      mcq ''Stacks'' ''Hard'' ''H2'']"


definition medium_only_bank :: "question list" where
  "medium_only_bank = [mcq ''Heaps'' ''Medium'' ''M1'', mcq ''Heaps'' ''Medium'' ''M2'']"

definition one_hard_bank :: "question list" where
  "one_hard_bank = [mcq ''Queues'' ''Hard'' ''H1'']"

definition two_hard_bank :: "question list" where
  "two_hard_bank = [mcq ''Queues'' ''Hard'' ''H1'', mcq ''Queues'' ''Hard'' ''H2'']"

definition queues_bank :: "question list" where
  "queues_bank =
     [mcq ''Queues'' ''Easy'' ''E1'', mcq ''Queues'' ''Medium'' ''M1'',
      mcq ''Queues'' ''Hard'' ''H1'', mcq ''Queues'' ''Hard'' ''H2'',
      mcq ''Queues'' ''Hard'' ''H3'', mcq ''Queues'' ''Hard'' ''H4'']"

text \<open>The questions of the follow-up session stored in the database, if there is one.\<close>

definition stored_questions :: "store \<Rightarrow> question list" where
  "stored_questions st =
     (case db_session st of Some (Sequential session) \<Rightarrow> questions session | _ \<Rightarrow> [])"

text \<open>Answering a follow-up test: each answer goes to the function of the test's kind.\<close>

fun answer_followup :: "bool \<Rightarrow> string list \<Rightarrow> store \<Rightarrow> store" where
  "answer_followup advanced [] st = st"
| "answer_followup advanced (a # as) st =
     answer_followup advanced as
       (snd (if advanced then process_reevaluation_answer_advanced a st
             else process_reevaluation_answer a st))"

text \<open>A learner whose weak pool and needs-training pool both hold the topic Queues.\<close>

definition queues_learner :: store where
  "queues_learner =
     (empty_store [])\<lparr>db_weak_topics := [''Queues''], db_needs_training := [''Queues'']\<rparr>"


text \<open>The weak topics that the result of a follow-up answer reports (none before the end).\<close>

definition reported_weak :: "followup_result \<Rightarrow> string list" where
  "reported_weak result =
     (case f_test_results result of None \<Rightarrow> [] | Some tr \<Rightarrow> tr_weak_topics tr)"

section \<open>Reading the sessions\<close>

text \<open>The cache holds an adaptive session (then \<open>the_session\<close> is that session).\<close>

definition has_adaptive_session :: "store \<Rightarrow> bool" where
  "has_adaptive_session st =
     (case cached_session st of Some (Adaptive _) \<Rightarrow> True | _ \<Rightarrow> False)"


text \<open>
  A property of adaptive sessions holds of a stored session: of the session when it is an
  adaptive one, and trivially when there is none or one of another type.
\<close>

definition session_holds :: "(adaptive_session \<Rightarrow> bool) \<Rightarrow> session option \<Rightarrow> bool" where
  "session_holds P so = (case so of Some (Adaptive s) \<Rightarrow> P s | _ \<Rightarrow> True)"






text \<open>
  The order in which a session only gains needs-training topics and Hard failures, and the
  session properties that such a gain preserves.
\<close>

definition session_le :: "adaptive_session \<Rightarrow> adaptive_session \<Rightarrow> bool" where
  "session_le s s' =
     (set (needs_more_training s) \<subseteq> set (needs_more_training s')
      \<and> (\<forall>t. dict_get (hard_failures_count s) t 0 \<le> dict_get (hard_failures_count s') t 0))"


text \<open>
  The follow-up session stored in the database, the topics that its result reports
  (\<^verbatim>\<open>session.get("topics", [session.get("topic", "Unknown")])\<close>), and the number of answers
  that agree, in upper case, with the correct answer of their question.
\<close>

definition followup_session :: "store \<Rightarrow> sequential_session option" where
  "followup_session st =
     (case db_session st of Some (Sequential session) \<Rightarrow> Some session | _ \<Rightarrow> None)"

definition followup_topics :: "sequential_session \<Rightarrow> string list" where
  "followup_topics session =
     (case s_topics session of Some l \<Rightarrow> l | None \<Rightarrow> [s_topic session])"

definition correct_count :: "string list \<Rightarrow> question list \<Rightarrow> nat" where
  "correct_count given qs =
     length (filter (\<lambda>(a, q). upper a = upper (q_correct_answer q)) (zip given qs))"

text \<open>
  The weak-mark condition of a completed follow-up: \<^verbatim>\<open>correct < (total * 2 // 3)\<close> in
  \<^verbatim>\<open>process_reevaluation_answer\<close> and \<^verbatim>\<open>correct < total * 0.8\<close> in
  \<^verbatim>\<open>process_reevaluation_answer_advanced\<close>.
\<close>

definition followup_weak :: "bool \<Rightarrow> int \<Rightarrow> int \<Rightarrow> bool" where
  "followup_weak advanced correct total_questions =
     (if advanced then 5 * correct < 4 * total_questions
      else correct < (total_questions * 2) div 3)"

text \<open>
  The number of logged answers for a topic, and the number of correct ones among them.
\<close>

definition topic_total :: "string \<Rightarrow> answer list \<Rightarrow> nat" where
  "topic_total t as = length (filter (\<lambda>a. a_topic a = t) as)"

definition topic_correct :: "string \<Rightarrow> answer list \<Rightarrow> nat" where
  "topic_correct t as = length (filter (\<lambda>a. a_topic a = t \<and> a_correct a) as)"

section \<open>Properties\<close>

subsection \<open>The store operations, field by field\<close>

lemma fold_add_weak_fields [simp]:
  "user_data (fold add_weak_topic ts st) = user_data st"
  "db_session (fold add_weak_topic ts st) = db_session st"
  "db_needs_training (fold add_weak_topic ts st) = db_needs_training st"
  "db_tests (fold add_weak_topic ts st) = db_tests st"
  "rand (fold add_weak_topic ts st) = rand st"
  by (induction ts arbitrary: st) (simp_all add: add_weak_topic_def)

lemma fold_add_needs_fields [simp]:
  "user_data (fold add_needs_training_topic ts st) = user_data st"
  "db_session (fold add_needs_training_topic ts st) = db_session st"
  "db_weak_topics (fold add_needs_training_topic ts st) = db_weak_topics st"
  "db_tests (fold add_needs_training_topic ts st) = db_tests st"
  "rand (fold add_needs_training_topic ts st) = rand st"
  by (induction ts arbitrary: st) (simp_all add: add_needs_training_topic_def)

lemma set_insert_or_ignore [simp]: "set (insert_or_ignore t pool) = insert t (set pool)"
  by (auto simp: insert_or_ignore_def)

lemma set_fold_add_weak [simp]:
  "set (db_weak_topics (fold add_weak_topic ts st)) = set (db_weak_topics st) \<union> set ts"
  by (induction ts arbitrary: st) (auto simp: add_weak_topic_def)

lemma set_fold_add_needs [simp]:
  "set (db_needs_training (fold add_needs_training_topic ts st)) = set (db_needs_training st) \<union> set ts"
  by (induction ts arbitrary: st) (auto simp: add_needs_training_topic_def)

lemma save_user_data_fields [simp]:
  "user_data (save_user_data st) = user_data st"
  "db_tests (save_user_data st) = db_tests st"
  "rand (save_user_data st) = rand st"
  "db_session (save_user_data st) = (if user_data st = None then db_session st else cached_session st)"
  "set (db_weak_topics (save_user_data st)) = set (db_weak_topics st) \<union> set (cached_weak_pool st)"
  "set (db_needs_training (save_user_data st)) = set (db_needs_training st) \<union> set (cached_needs_pool st)"
  by (auto simp: save_user_data_def save_user_session_def cached_session_def cached_weak_pool_def cached_needs_pool_def split: option.splits)

lemma set_cached_session_fields [simp]:
  "db_session (set_cached_session s st) = db_session st"
  "db_tests (set_cached_session s st) = db_tests st"
  "db_weak_topics (set_cached_session s st) = db_weak_topics st"
  "db_needs_training (set_cached_session s st) = db_needs_training st"
  "rand (set_cached_session s st) = rand st"
  "cached_weak_pool (set_cached_session s st) = cached_weak_pool st"
  "cached_needs_pool (set_cached_session s st) = cached_needs_pool st"
  "(user_data (set_cached_session s st) = None) = (user_data st = None)"
  "cached_session (set_cached_session s st) = (if user_data st = None then None else s)"
  by (auto simp: set_cached_session_def cached_session_def cached_weak_pool_def cached_needs_pool_def split: option.splits)

lemma save_user_session_fields [simp]:
  "db_session (save_user_session s st) = s"
  "user_data (save_user_session s st) = user_data st"
  "db_tests (save_user_session s st) = db_tests st"
  "db_weak_topics (save_user_session s st) = db_weak_topics st"
  "db_needs_training (save_user_session s st) = db_needs_training st"
  "rand (save_user_session s st) = rand st"
  "cached_session (save_user_session s st) = cached_session st"
  "cached_weak_pool (save_user_session s st) = cached_weak_pool st"
  "cached_needs_pool (save_user_session s st) = cached_needs_pool st"
  by (simp_all add: save_user_session_def cached_session_def cached_weak_pool_def cached_needs_pool_def)

lemma clear_user_session_fields [simp]:
  "db_session (clear_user_session st) = None"
  "user_data (clear_user_session st) = user_data st"
  "db_tests (clear_user_session st) = db_tests st"
  "db_weak_topics (clear_user_session st) = db_weak_topics st"
  "db_needs_training (clear_user_session st) = db_needs_training st"
  "rand (clear_user_session st) = rand st"
  "cached_session (clear_user_session st) = cached_session st"
  "cached_weak_pool (clear_user_session st) = cached_weak_pool st"
  "cached_needs_pool (clear_user_session st) = cached_needs_pool st"
  by (simp_all add: clear_user_session_def cached_session_def cached_weak_pool_def cached_needs_pool_def)

lemma save_user_test_fields [simp]:
  "db_session (save_user_test r st) = db_session st"
  "user_data (save_user_test r st) = user_data st"
  "db_tests (save_user_test r st) = r # db_tests st"
  "db_weak_topics (save_user_test r st) = db_weak_topics st"
  "db_needs_training (save_user_test r st) = db_needs_training st"
  "rand (save_user_test r st) = rand st"
  "cached_session (save_user_test r st) = cached_session st"
  "cached_weak_pool (save_user_test r st) = cached_weak_pool st"
  "cached_needs_pool (save_user_test r st) = cached_needs_pool st"
  by (simp_all add: save_user_test_def cached_session_def cached_weak_pool_def cached_needs_pool_def)

lemma cached_of_user_data_eq:
  "user_data st' = user_data st \<Longrightarrow> cached_session st' = cached_session st"
  "user_data st' = user_data st \<Longrightarrow> cached_weak_pool st' = cached_weak_pool st"
  "user_data st' = user_data st \<Longrightarrow> cached_needs_pool st' = cached_needs_pool st"
  by (simp_all add: cached_session_def cached_weak_pool_def cached_needs_pool_def)

lemma cached_save_user_data [simp]:
  "cached_session (save_user_data st) = cached_session st"
  "cached_weak_pool (save_user_data st) = cached_weak_pool st"
  "cached_needs_pool (save_user_data st) = cached_needs_pool st"
  by (rule cached_of_user_data_eq, simp)+

lemma cached_fold_add [simp]:
  "cached_session (fold add_weak_topic ts st) = cached_session st"
  "cached_weak_pool (fold add_weak_topic ts st) = cached_weak_pool st"
  "cached_needs_pool (fold add_weak_topic ts st) = cached_needs_pool st"
  "cached_session (fold add_needs_training_topic ts st) = cached_session st"
  "cached_weak_pool (fold add_needs_training_topic ts st) = cached_weak_pool st"
  "cached_needs_pool (fold add_needs_training_topic ts st) = cached_needs_pool st"
  by (rule cached_of_user_data_eq, simp)+


subsection \<open>Lookups in the question bank\<close>

lemma std_difficulty_names [simp]:
  "std_difficulty ''Easy'' = ''Easy''"
  "std_difficulty ''Medium'' = ''Medium''"
  "std_difficulty ''Hard'' = ''Hard''"
  by code_simp+

lemma random_choice_in_set: "xs \<noteq> [] \<Longrightarrow> random_choice xs r \<in> set xs"
  by (simp add: random_choice_def)

lemma random_candidates_exact:
  "exact_matches topic (std_difficulty d) all_mcqs \<noteq> [] \<Longrightarrow>
     random_candidates topic d all_mcqs = exact_matches topic (std_difficulty d) all_mcqs"
  by (simp add: random_candidates_def Let_def)

lemma get_random_exact:
  assumes "exact_matches topic (std_difficulty d) all_mcqs \<noteq> []"
  shows "\<exists>q. get_random_question_by_topic_and_difficulty topic d all_mcqs r = Some q
             \<and> q_topic q = topic \<and> q_difficulty q = std_difficulty d \<and> q \<in> set all_mcqs"
proof -
  have "random_choice (exact_matches topic (std_difficulty d) all_mcqs) r
          \<in> set (exact_matches topic (std_difficulty d) all_mcqs)"
    using assms by (rule random_choice_in_set)
  then show ?thesis
    using assms
    by (simp add: get_random_question_by_topic_and_difficulty_def random_candidates_exact
        exact_matches_def)
qed

lemma get_random_None:
  "(get_random_question_by_topic_and_difficulty topic d all_mcqs r = None)
     = (random_candidates topic d all_mcqs = [])"
  by (simp add: get_random_question_by_topic_and_difficulty_def Let_def)

subsection \<open>The adaptive step\<close>







subsection \<open>What an adaptive session keeps\<close>



lemma session_le_refl: "session_le s s"
  by (simp add: session_le_def)

lemma session_le_fields:
  "needs_more_training s' = needs_more_training s
     \<Longrightarrow> hard_failures_count s' = hard_failures_count s \<Longrightarrow> session_le s s'"
  by (simp add: session_le_def)





lemma upd_session_fields [simp]:
  "db_session (upd_session f st) = db_session st"
  "db_tests (upd_session f st) = db_tests st"
  "db_weak_topics (upd_session f st) = db_weak_topics st"
  "db_needs_training (upd_session f st) = db_needs_training st"
  "rand (upd_session f st) = rand st"
  "(user_data (upd_session f st) = None) = (user_data st = None)"
  by (auto simp: upd_session_def split: option.splits session.splits)

lemma draw_fields [simp]:
  "db_session (snd (draw st)) = db_session st"
  "db_tests (snd (draw st)) = db_tests st"
  "user_data (snd (draw st)) = user_data st"
  "cached_session (snd (draw st)) = cached_session st"
  "db_weak_topics (snd (draw st)) = db_weak_topics st"
  "db_needs_training (snd (draw st)) = db_needs_training st"
  by (auto simp: draw_def cached_session_def split: list.splits)

lemma save_cached_session_fields [simp]:
  "db_session (save_cached_session st) = cached_session st"
  "db_tests (save_cached_session st) = db_tests st"
  "user_data (save_cached_session st) = user_data st"
  "cached_session (save_cached_session st) = cached_session st"
  "db_weak_topics (save_cached_session st) = db_weak_topics st"
  "db_needs_training (save_cached_session st) = db_needs_training st"
  by (simp_all add: save_cached_session_def)



lemma session_holds_simps [simp]:
  "session_holds P None"
  "session_holds P (Some (Sequential q))"
  "session_holds P (Some (Adaptive s)) = P s"
  by (simp_all add: session_holds_def)











lemma session_le_tracker [simp]:
  "session_le s (add_used_hash q s)"
  "session_le s (append_asked t d i s)"
  "session_le s (append_asked t d i (add_used_hash q s))"
  "session_le s (track_question q s)"
  "session_le s (update_flags t n s)"
  by (simp_all add: session_le_def add_used_hash_def append_asked_def track_question_def
      update_flags_def Let_def)




















lemma has_adaptive_session_cong:
  "cached_session st' = cached_session st \<Longrightarrow> has_adaptive_session st' = has_adaptive_session st"
  "cached_session st' = cached_session st \<Longrightarrow> the_session st' = the_session st"
  by (simp_all add: has_adaptive_session_def the_session_def)











subsection \<open>C10: a follow-up of a single question\<close>

text \<open>
  C10. If a Standard follow-up session has a single question, then completing it never
  adds the topic to the weak list, whatever the answer: the weak-mark condition
  \<open>correct_answers < total_questions * 2 div 3\<close> cannot hold when \<open>total_questions\<close> is 1.
  The test result lists no weak topic, and the stored weak pool gains nothing but what
  \<^verbatim>\<open>save_user_data\<close> flushes from the cached pool.
\<close>

theorem single_question_reevaluation_never_marks_weak:
  assumes "db_session st = Some (Sequential session)"
    and "startswith (test_type session) ''Reevaluation''"
    and "\<not> str_in ''Advanced'' (test_type session)"
    and "is_sequential session"
    and "length (questions session) = 1"
    and "current_question_index session = 0"
    and "0 \<le> correct_answers session"
  shows "\<exists>result st'. process_reevaluation_answer answer st = (Inr result, st')
           \<and> f_test_completed result
           \<and> (\<exists>tr. f_test_results result = Some tr \<and> tr_weak_topics tr = [])
           \<and> set (db_weak_topics st') = set (db_weak_topics st) \<union> set (cached_weak_pool st)"
proof -
  have nonneg: "0 \<le> correct_answers (snd (mark_sequential_answer answer session))"
    using assms(7) by (simp add: mark_sequential_answer_def Let_def)
  have idx: "current_question_index (snd (mark_sequential_answer answer session)) = 1"
    using assms(6) by (simp add: mark_sequential_answer_def Let_def)
  have not_weak: "\<not> correct_answers (snd (mark_sequential_answer answer session)) < (1 * 2) div 3"
    using nonneg by simp
  show ?thesis
    using assms(1-6) idx not_weak
    by (simp add: process_reevaluation_answer_def sequential_answer_step_def Let_def
        split_beta)
qed


theorem single_question_reevaluation_never_marks_weak_witness:
  "\<exists>result st'. process_reevaluation_answer ''B'' single_question_store = (Inr result, st')
     \<and> f_test_completed result
     \<and> (\<exists>tr. f_test_results result = Some tr \<and> tr_weak_topics tr = [])
     \<and> set (db_weak_topics st')
         = set (db_weak_topics single_question_store) \<union> set (cached_weak_pool single_question_store)"
  by (rule single_question_reevaluation_never_marks_weak
            [of single_question_store single_question_session])
     (simp_all add: single_question_store_def single_question_session_def
        new_sequential_session_def empty_store_def startswith_def)

subsection \<open>C3: the ceiling on the questions of a topic\<close>

text \<open>
  C3. No topic receives more than 6 questions (at most 5, and a sixth only as the Hard
  retry). The code does not keep this: the first Easy retry of the first-question sequence
  returns before the per-topic count is incremented. With the answers wrong, wrong, right,
  right, wrong, right the topic Stacks is served seven questions, the seventh being the Hard
  retry, while \<^verbatim>\<open>topic_question_count\<close> stands at 5 after the sixth answer.
\<close>

theorem easy_retry_is_not_counted:
  "(let (served, st) = run_adaptive_test [''Stacks''] [''B'', ''B'', ''A'', ''A'', ''B'', ''A'']
                          seven_bank (empty_store [])
    in map q_question served = [''M1'', ''E1'', ''E2'', ''M2'', ''H1'', ''M3'', ''H2'']
       \<and> map q_topic served = replicate 7 ''Stacks''
       \<and> length served = 7
       \<and> dict_get (topic_question_count (the_session st)) ''Stacks'' 0 = 5)"
  by code_simp

subsection \<open>C5: the hash of a served question\<close>

text \<open>
  C5. The hash of each selected question is recorded before the question is returned, and
  no two served questions share a hash unless all candidates are exhausted. The code does
  not keep this on the last path of \<^verbatim>\<open>get_unused_question_by_topic_and_difficulty\<close>: when
  no question matches the topic at the requested difficulty it returns the result of
  \<^verbatim>\<open>get_random_question_by_topic_and_difficulty\<close>, unfiltered and unrecorded. For a topic
  with two Medium questions and no Hard one, the first Medium question is served twice
  while the second is unused; and with another draw the second comes back from the tracker
  with its hash not in \<^verbatim>\<open>used_question_hashes\<close>.
\<close>

theorem fallback_serves_a_duplicate:
  "(let (served, st) = run_adaptive_test [''Heaps''] [''A''] medium_only_bank (empty_store [])
    in map q_question served = [''M1'', ''M1'']
       \<and> get_question_hash (mcq ''Heaps'' ''Medium'' ''M2'')
            \<notin> set (used_question_hashes (the_session st)))
   \<and> (let st0 = snd (start_test [''Heaps''] medium_only_bank (empty_store [0, 1]));
           (next, st1) = get_unused_question_by_topic_and_difficulty ''Heaps'' (Some ''Hard'')
                           medium_only_bank st0
       in next = Some (mcq ''Heaps'' ''Medium'' ''M2'')
          \<and> get_question_hash (mcq ''Heaps'' ''Medium'' ''M2'')
               \<notin> set (used_question_hashes (the_session st1)))"
  by code_simp

subsection \<open>C8: the Advanced follow-up builder\<close>

lemma length_random_sample: "length (random_sample xs k rs) = min k (length xs)"
proof (induction k arbitrary: xs rs)
  case 0
  then show ?case by simp
next
  case (Suc k)
  show ?case
  proof (cases "xs = []")
    case True
    then show ?thesis by simp
  next
    case False
    define i where "i = (case rs of [] \<Rightarrow> 0 | r # _ \<Rightarrow> r) mod length xs"
    have i: "i < length xs" using False by (simp add: i_def)
    then have "length (take i xs @ drop (Suc i) xs) = length xs - 1" by simp
    with Suc[of "take i xs @ drop (Suc i) xs" "tl rs"] False i show ?thesis
      by (simp add: Let_def i_def [symmetric])
  qed
qed

lemma set_random_sample: "set (random_sample xs k rs) \<subseteq> set xs"
proof (induction k arbitrary: xs rs)
  case 0
  then show ?case by simp
next
  case (Suc k)
  show ?case
  proof (cases "xs = []")
    case True
    then show ?thesis by simp
  next
    case False
    define i where "i = (case rs of [] \<Rightarrow> 0 | r # _ \<Rightarrow> r) mod length xs"
    have i: "i < length xs" using False by (simp add: i_def)
    have sub: "set (take i xs @ drop (Suc i) xs) \<subseteq> set xs"
      using set_take_subset [of i xs] set_drop_subset [of "Suc i" xs] by auto
    have "xs ! i \<in> set xs" using i by simp
    with Suc[of "take i xs @ drop (Suc i) xs" "tl rs"] sub False show ?thesis
      by (auto simp: Let_def i_def [symmetric])
  qed
qed

lemma distinct_map_random_sample:
  "distinct (map f xs) \<Longrightarrow> distinct (map f (random_sample xs k rs))"
proof (induction k arbitrary: xs rs)
  case 0
  then show ?case by simp
next
  case (Suc k)
  show ?case
  proof (cases "xs = []")
    case True
    then show ?thesis by simp
  next
    case False
    define i where "i = (case rs of [] \<Rightarrow> 0 | r # _ \<Rightarrow> r) mod length xs"
    define rest where "rest = take i xs @ drop (Suc i) xs"
    have i: "i < length xs" using False by (simp add: i_def)
    have split: "xs = take i xs @ xs ! i # drop (Suc i) xs"
      using i by (rule id_take_nth_drop)
    have "distinct (map f (take i xs @ xs ! i # drop (Suc i) xs))"
      using Suc.prems split by simp
    then have d: "distinct (map f rest)" and notin: "f (xs ! i) \<notin> f ` set rest"
      by (auto simp: rest_def)
    have "set (random_sample rest k (tl rs)) \<subseteq> set rest" by (rule set_random_sample)
    with notin have "f (xs ! i) \<notin> f ` set (random_sample rest k (tl rs))" by blast
    with Suc.IH[OF d, of "tl rs"] False show ?thesis
      by (simp add: Let_def i_def [symmetric] rest_def [symmetric])
  qed
qed

lemma unique_questions_props:
  "set (unique_questions qs seen) \<subseteq> set qs
   \<and> distinct (map (\<lambda>q. take 100 (q_question q)) (unique_questions qs seen))
   \<and> (\<forall>q \<in> set (unique_questions qs seen). take 100 (q_question q) \<notin> set seen)"
proof (induction qs arbitrary: seen)
  case Nil
  then show ?case by simp
next
  case (Cons q qs)
  show ?case
    using Cons.IH[of seen] Cons.IH[of "take 100 (q_question q) # seen"]
    by (auto simp: Let_def)
qed

lemma variation_matches_difficulty:
  "q \<in> set (variation_matches topic d all_mcqs) \<Longrightarrow> q_difficulty q = d \<and> q \<in> set all_mcqs"
  by (auto simp: variation_matches_def exact_matches_def split: if_splits)

lemma hard_candidates_hard:
  "q \<in> set (hard_candidates topic all_mcqs) \<Longrightarrow> q_difficulty q = ''Hard'' \<and> q \<in> set all_mcqs"
proof -
  assume "q \<in> set (hard_candidates topic all_mcqs)"
  then have "q \<in> set (exact_matches topic ''Hard'' all_mcqs)
             \<or> q \<in> set (variation_matches topic ''Hard'' all_mcqs)"
    using unique_questions_props
    by (fastforce simp: hard_candidates_def Let_def split: if_splits)
  then show ?thesis
    using variation_matches_difficulty by (auto simp: exact_matches_def)
qed

lemma hard_candidates_distinct:
  "distinct (map (\<lambda>q. take 100 (q_question q)) (hard_candidates topic all_mcqs))"
  using unique_questions_props by (simp add: hard_candidates_def Let_def)

lemma db_session_install_session [simp]:
  "db_session (install_session sd st) = Some (Sequential sd)"
  by (simp add: install_session_def Let_def split: option.splits)

lemma stored_questions_install [simp]:
  "stored_questions (install_session sd st) = questions sd"
  by (simp add: stored_questions_def)

lemma length_sample_and_shuffle:
  "length (fst (sample_and_shuffle qs st)) = min 3 (length qs)"
  by (auto simp: sample_and_shuffle_def Let_def split_beta length_random_sample)

lemma set_sample_and_shuffle: "set (fst (sample_and_shuffle qs st)) \<subseteq> set qs"
proof -
  have "set (random_sample (random_sample qs 3 rs) k rs') \<subseteq> set qs" for rs k rs'
    using set_random_sample [of "random_sample qs 3 rs" k rs'] set_random_sample [of qs 3 rs]
    by blast
  then show ?thesis
    using set_random_sample [of qs]
    by (auto simp: sample_and_shuffle_def Let_def split_beta)
qed

lemma distinct_sample_and_shuffle:
  "distinct (map f qs) \<Longrightarrow> distinct (map f (fst (sample_and_shuffle qs st)))"
  by (auto simp: sample_and_shuffle_def Let_def split_beta distinct_map_random_sample)

text \<open>
  C8, as amended. The Advanced builder takes the Hard questions of the topic (under its exact
  name, or under its aliases when the exact name has none), keeps one question for each
  distinct text (first 100 characters), and fails exactly when fewer than two remain.
  Otherwise it stores a session of \<open>min 3 n\<close> of these \<open>n\<close> questions: all Hard, pairwise
  different in text, the first of them returned.
\<close>

theorem advanced_builder_size:
  "(let n = length (hard_candidates topic all_mcqs) in
    if n < 2 then
      fst (start_advanced_reevaluation_test topic all_mcqs st) = Inl (NotEnoughHardQuestions n)
    else
      (\<exists>first st'. start_advanced_reevaluation_test topic all_mcqs st = (Inr first, st')
          \<and> stored_questions st' \<noteq> [] \<and> first = hd (stored_questions st')
          \<and> length (stored_questions st') = min 3 n
          \<and> distinct (map (\<lambda>q. take 100 (q_question q)) (stored_questions st'))
          \<and> set (stored_questions st') \<subseteq> set (hard_candidates topic all_mcqs)
          \<and> list_all (\<lambda>q. q_difficulty q = ''Hard'') (stored_questions st')))"
proof (cases "length (hard_candidates topic all_mcqs) < 2")
  case True
  then show ?thesis
    by (simp add: start_advanced_reevaluation_test_def Let_def)
next
  case False
  define qs where "qs = hard_candidates topic all_mcqs"
  define st1 where "st1 = set_cached_session None (clear_user_session st)"
  define qs2 where "qs2 = fst (sample_and_shuffle qs st1)"
  define st2 where "st2 = snd (sample_and_shuffle qs st1)"
  define st3 where "st3 = install_session
      (new_sequential_session (''Advanced Reevaluation: '' @ topic) topic qs2) st2"
  have n: "2 \<le> length qs" using False by (simp add: qs_def)
  have len2: "length qs2 = min 3 (length qs)"
    by (simp add: qs2_def length_sample_and_shuffle)
  have sub2: "set qs2 \<subseteq> set qs"
    by (simp add: qs2_def set_sample_and_shuffle)
  have d2: "distinct (map (\<lambda>q. take 100 (q_question q)) qs2)"
    using hard_candidates_distinct [of topic all_mcqs]
    by (simp add: qs2_def qs_def distinct_sample_and_shuffle)
  have hard: "list_all (\<lambda>q. q_difficulty q = ''Hard'') qs2"
    using sub2 hard_candidates_hard [of _ topic all_mcqs]
    by (auto simp: list_all_iff qs_def)
  have ne: "qs2 \<noteq> []" using len2 n by auto
  then obtain first rest where qs2_eq: "qs2 = first # rest" by (cases qs2) auto
  have stored: "stored_questions st3 = qs2"
    by (simp add: st3_def new_sequential_session_def)
  have run: "start_advanced_reevaluation_test topic all_mcqs st = (Inr first, st3)"
    using False qs2_eq
    by (simp add: start_advanced_reevaluation_test_def Let_def split_beta qs_def st1_def
        qs2_def st2_def st3_def)
  show ?thesis
    using False run stored len2 d2 sub2 hard qs2_eq
    by (simp add: Let_def qs_def [symmetric])
qed

theorem advanced_builder_size_witness:
  "(\<exists>first st'. start_advanced_reevaluation_test ''Queues'' queues_bank (empty_store [2, 0, 1, 1])
                      = (Inr first, st')
      \<and> length (stored_questions st') = 3
      \<and> distinct (map (\<lambda>q. take 100 (q_question q)) (stored_questions st'))
      \<and> list_all (\<lambda>q. q_difficulty q = ''Hard'') (stored_questions st'))
   \<and> length (hard_candidates ''Queues'' queues_bank) = 4"
proof -
  have n: "length (hard_candidates ''Queues'' queues_bank) = 4"
    by code_simp
  show ?thesis
    using advanced_builder_size [of "''Queues''" queues_bank "empty_store [2, 0, 1, 1]"] n
    by (auto simp: Let_def)
qed

text \<open>
  C8 as stated fails: with two Hard questions the session has two questions, not three, and
  with one Hard question the builder fails although the topic has an eligible question.
\<close>

theorem advanced_builder_with_two_and_one:
  "length (stored_questions
             (snd (start_advanced_reevaluation_test ''Queues'' two_hard_bank (empty_store []))))
     = 2
   \<and> fst (start_advanced_reevaluation_test ''Queues'' one_hard_bank (empty_store []))
       = Inl (NotEnoughHardQuestions 1)"
  by code_simp

subsection \<open>C6: the Standard follow-up builder\<close>

text \<open>
  \<^verbatim>\<open>start_reevaluation_test\<close> of chatbot.py looks up one question for each of Easy, Medium
  and Hard, in that order, and appends each lookup that found a question. When the topic has
  a question of each difficulty under its own name, the test has exactly one Easy, one
  Medium and one Hard question of the topic, in that order; the builder fails exactly when
  all three lookups find nothing.
\<close>

lemma standard_builder_full_buckets:
  "(exact_matches topic ''Easy'' all_mcqs \<noteq> [] \<and> exact_matches topic ''Medium'' all_mcqs \<noteq> []
      \<and> exact_matches topic ''Hard'' all_mcqs \<noteq> [] \<longrightarrow>
      (\<exists>first st'. start_reevaluation_test topic all_mcqs st = (Inr first, st')
          \<and> map q_difficulty (stored_questions st') = [''Easy'', ''Medium'', ''Hard'']
          \<and> list_all (\<lambda>q. q_topic q = topic) (stored_questions st')
          \<and> first = hd (stored_questions st')))
   \<and> ((fst (start_reevaluation_test topic all_mcqs st) = Inl NoQuestionsForReevaluation)
        = (random_candidates topic ''Easy'' all_mcqs = []
           \<and> random_candidates topic ''Medium'' all_mcqs = []
           \<and> random_candidates topic ''Hard'' all_mcqs = []))"
proof (intro conjI impI)
  assume buckets: "exact_matches topic ''Easy'' all_mcqs \<noteq> []
      \<and> exact_matches topic ''Medium'' all_mcqs \<noteq> []
      \<and> exact_matches topic ''Hard'' all_mcqs \<noteq> []"
  define r1 where "r1 = fst (draw st)"
  define r2 where "r2 = fst (draw (snd (draw st)))"
  define r3 where "r3 = fst (draw (snd (draw (snd (draw st)))))"
  obtain e where e: "get_random_question_by_topic_and_difficulty topic ''Easy'' all_mcqs r1 = Some e"
      "q_topic e = topic" "q_difficulty e = ''Easy''"
    using get_random_exact [of topic "''Easy''" all_mcqs r1] buckets by auto
  obtain m where m: "get_random_question_by_topic_and_difficulty topic ''Medium'' all_mcqs r2 = Some m"
      "q_topic m = topic" "q_difficulty m = ''Medium''"
    using get_random_exact [of topic "''Medium''" all_mcqs r2] buckets by auto
  obtain h where h: "get_random_question_by_topic_and_difficulty topic ''Hard'' all_mcqs r3 = Some h"
      "q_topic h = topic" "q_difficulty h = ''Hard''"
    using get_random_exact [of topic "''Hard''" all_mcqs r3] buckets by auto
  show "\<exists>first st'. start_reevaluation_test topic all_mcqs st = (Inr first, st')
          \<and> map q_difficulty (stored_questions st') = [''Easy'', ''Medium'', ''Hard'']
          \<and> list_all (\<lambda>q. q_topic q = topic) (stored_questions st')
          \<and> first = hd (stored_questions st')"
    using e m h
    by (simp add: start_reevaluation_test_def Let_def split_beta opt_list_def
        r1_def r2_def r3_def new_sequential_session_def)
next
  show "(fst (start_reevaluation_test topic all_mcqs st) = Inl NoQuestionsForReevaluation)
        = (random_candidates topic ''Easy'' all_mcqs = []
           \<and> random_candidates topic ''Medium'' all_mcqs = []
           \<and> random_candidates topic ''Hard'' all_mcqs = [])"
  proof -
    define qs where "qs =
       opt_list (get_random_question_by_topic_and_difficulty topic ''Easy'' all_mcqs
                   (fst (draw st)))
       @ opt_list (get_random_question_by_topic_and_difficulty topic ''Medium'' all_mcqs
                   (fst (draw (snd (draw st)))))
       @ opt_list (get_random_question_by_topic_and_difficulty topic ''Hard'' all_mcqs
                   (fst (draw (snd (draw (snd (draw st)))))))"
    have fails: "(fst (start_reevaluation_test topic all_mcqs st) = Inl NoQuestionsForReevaluation)
                   = (qs = [])"
      by (simp add: start_reevaluation_test_def Let_def split_beta qs_def [symmetric]
          split: list.splits)
    have empty: "(opt_list x = []) = (x = None)" for x :: "question option"
      by (simp add: opt_list_def split: option.splits)
    show ?thesis
      unfolding fails by (simp add: qs_def empty get_random_None)
  qed
qed

text \<open>
  C6. The builder is meant to take \<^verbatim>\<open>one question of each difficulty in specific order\<close>
  and to leave out a difficulty that has no question (\<^verbatim>\<open>if medium_question:\<close>). But the
  lookup \<^verbatim>\<open>get_random_question_by_topic_and_difficulty\<close> does not come back empty for an
  empty bucket: it falls back to the topic's questions of another difficulty. For a topic
  whose only question is a Hard one, the Easy and the Medium bucket are empty and are not
  skipped: the test consists of that one Hard question, three times.
\<close>

theorem empty_bucket_is_filled:
  "exact_matches ''Queues'' ''Easy'' one_hard_bank = []
   \<and> exact_matches ''Queues'' ''Medium'' one_hard_bank = []
   \<and> map q_difficulty
        (stored_questions (snd (start_reevaluation_test ''Queues'' one_hard_bank (empty_store []))))
      = [''Hard'', ''Hard'', ''Hard'']
   \<and> map q_question
        (stored_questions (snd (start_reevaluation_test ''Queues'' one_hard_bank (empty_store []))))
      = [''H1'', ''H1'', ''H1'']"
  by code_simp

subsection \<open>C7: follow-up tests and the pools\<close>

lemma sequential_answer_step_pools:
  "set (db_weak_topics (snd (sequential_answer_step still_weak rt answer session st)))
     = set (db_weak_topics st) \<union> set (cached_weak_pool st)
       \<union> set (reported_weak (fst (sequential_answer_step still_weak rt answer session st)))"
  "set (db_needs_training (snd (sequential_answer_step still_weak rt answer session st)))
     = set (db_needs_training st) \<union> set (cached_needs_pool st)"
  by (auto simp: sequential_answer_step_def Let_def split_beta reported_weak_def)

lemma followup_step_keeps_pools:
  "set (db_weak_topics st) \<subseteq> set (db_weak_topics (snd (process_reevaluation_answer a st)))"
  "set (db_needs_training st)
     \<subseteq> set (db_needs_training (snd (process_reevaluation_answer a st)))"
  "set (db_weak_topics st)
     \<subseteq> set (db_weak_topics (snd (process_reevaluation_answer_advanced a st)))"
  "set (db_needs_training st)
     \<subseteq> set (db_needs_training (snd (process_reevaluation_answer_advanced a st)))"
  by (auto simp: process_reevaluation_answer_def process_reevaluation_answer_advanced_def
      Let_def split_beta sequential_answer_step_pools split: option.splits session.splits)

lemma answer_followup_keeps_pools:
  "set (db_weak_topics st) \<subseteq> set (db_weak_topics (answer_followup advanced given st))"
  "set (db_needs_training st) \<subseteq> set (db_needs_training (answer_followup advanced given st))"
proof (induction given arbitrary: st)
  case Nil
  { case 1 show ?case by simp }
  { case 2 show ?case by simp }
next
  case (Cons a as)
  { case 1
    show ?case
      using Cons.IH(1) [of "snd (if advanced then process_reevaluation_answer_advanced a st
                                  else process_reevaluation_answer a st)"]
        followup_step_keeps_pools(1,3) [of st a]
      by (cases advanced) auto }
  { case 2
    show ?case
      using Cons.IH(2) [of "snd (if advanced then process_reevaluation_answer_advanced a st
                                  else process_reevaluation_answer a st)"]
        followup_step_keeps_pools(2,4) [of st a]
      by (cases advanced) auto }
qed

lemma mark_sequential_answer_fields:
  "current_question_index (snd (mark_sequential_answer a session))
     = Suc (current_question_index session)"
  "questions (snd (mark_sequential_answer a session)) = questions session"
  "test_type (snd (mark_sequential_answer a session)) = test_type session"
  "is_sequential (snd (mark_sequential_answer a session)) = is_sequential session"
  "s_topics (snd (mark_sequential_answer a session)) = s_topics session"
  "s_topic (snd (mark_sequential_answer a session)) = s_topic session"
  "correct_answers (snd (mark_sequential_answer a session))
     = correct_answers session
       + (if upper a
             = upper (q_correct_answer (questions session ! current_question_index session))
          then 1 else 0)"
  by (simp_all add: mark_sequential_answer_def Let_def)

lemma followup_topics_mark [simp]:
  "followup_topics (snd (mark_sequential_answer a session)) = followup_topics session"
  by (simp add: followup_topics_def mark_sequential_answer_fields split: option.splits)

lemma followup_topics_fold:
  "(case s_topics s of Some l \<Rightarrow> l | None \<Rightarrow> [s_topic s]) = followup_topics s"
  by (simp add: followup_topics_def)

lemma sequential_answer_step_continues:
  assumes "Suc (current_question_index session) < length (questions session)"
  shows "db_session (snd (sequential_answer_step sw rt a session st))
           = Some (Sequential (snd (mark_sequential_answer a session)))"
    and "db_tests (snd (sequential_answer_step sw rt a session st)) = db_tests st"
    and "cached_weak_pool (snd (sequential_answer_step sw rt a session st))
           = cached_weak_pool st"
    and "cached_needs_pool (snd (sequential_answer_step sw rt a session st))
           = cached_needs_pool st"
    and "set (db_weak_topics (snd (sequential_answer_step sw rt a session st)))
           = set (db_weak_topics st) \<union> set (cached_weak_pool st)"
    and "set (db_needs_training (snd (sequential_answer_step sw rt a session st)))
           = set (db_needs_training st) \<union> set (cached_needs_pool st)"
  using assms
  by (simp_all add: sequential_answer_step_def Let_def split_beta
      mark_sequential_answer_fields(1,2))

lemma sequential_answer_step_completes:
  assumes "length (questions session) \<le> Suc (current_question_index session)"
  shows "db_session (snd (sequential_answer_step sw rt a session st)) = None"
    and "db_tests (snd (sequential_answer_step sw rt a session st))
           = \<lparr>tr_test_type = rt (snd (mark_sequential_answer a session)),
              tr_topics = followup_topics session,
              tr_weak_topics =
                (if sw (correct_answers (snd (mark_sequential_answer a session)))
                       (int (length (questions session)))
                 then followup_topics session else []),
              tr_passed_topics = [], tr_needs_more_training = [],
              tr_score = Some (correct_answers (snd (mark_sequential_answer a session)),
                               int (length (questions session)))\<rparr> # db_tests st"
    and "set (db_weak_topics (snd (sequential_answer_step sw rt a session st)))
           = set (db_weak_topics st) \<union> set (cached_weak_pool st)
             \<union> (if sw (correct_answers (snd (mark_sequential_answer a session)))
                       (int (length (questions session)))
                 then set (followup_topics session) else {})"
    and "set (db_needs_training (snd (sequential_answer_step sw rt a session st)))
           = set (db_needs_training st) \<union> set (cached_needs_pool st)"
  using assms
  by (simp_all add: sequential_answer_step_def Let_def split_beta followup_topics_fold
      mark_sequential_answer_fields(1,2) Un_ac)


lemma correct_count_Cons:
  "correct_count (a # as) (q # qs)
     = (if upper a = upper (q_correct_answer q) then 1 else 0) + correct_count as qs"
  by (simp add: correct_count_def)

lemma followup_run:
  assumes "db_session st = Some (Sequential session)"
    and "if advanced then startswith (test_type session) ''Advanced Reevaluation''
         else startswith (test_type session) ''Reevaluation''
              \<and> \<not> str_in ''Advanced'' (test_type session) \<and> is_sequential session"
    and "current_question_index session + length given = length (questions session)"
    and "given \<noteq> []"
  shows "\<exists>r. db_tests (answer_followup advanced given st) = r # db_tests st
      \<and> tr_score r
          = Some (correct_answers session
                    + int (correct_count given
                             (drop (current_question_index session) (questions session))),
                  int (length (questions session)))
      \<and> tr_weak_topics r
          = (if followup_weak advanced
                  (correct_answers session
                     + int (correct_count given
                              (drop (current_question_index session) (questions session))))
                  (int (length (questions session)))
             then followup_topics session else [])
      \<and> db_session (answer_followup advanced given st) = None
      \<and> set (db_weak_topics (answer_followup advanced given st))
          = set (db_weak_topics st) \<union> set (cached_weak_pool st) \<union> set (tr_weak_topics r)
      \<and> set (db_needs_training (answer_followup advanced given st))
          = set (db_needs_training st) \<union> set (cached_needs_pool st)"
  using assms
proof (induction given arbitrary: st session)
  case Nil
  then show ?case by simp
next
  case (Cons a as)
  define i where "i = current_question_index session"
  define session1 where "session1 = snd (mark_sequential_answer a session)"
  define sw where "sw = followup_weak advanced"
  define rt :: "sequential_session \<Rightarrow> string" where "rt =
     (if advanced then test_type
      else (\<lambda>s. ''Reevaluation: '' @
           (case s_topics s of Some l \<Rightarrow> (case l of [] \<Rightarrow> ''Unknown'' | t # _ \<Rightarrow> t)
            | None \<Rightarrow> s_topic s)))"
  define st1 where "st1 = snd (sequential_answer_step sw rt a session st)"
  have i: "i < length (questions session)" using Cons.prems(3) by (simp add: i_def)
  have step: "snd (if advanced then process_reevaluation_answer_advanced a st
                   else process_reevaluation_answer a st) = st1"
    using Cons.prems(1,2) i
    by (cases advanced)
       (simp_all add: process_reevaluation_answer_def process_reevaluation_answer_advanced_def
          Let_def split_beta st1_def i_def sw_def rt_def followup_weak_def [abs_def])
  have dropi: "drop i (questions session) = questions session ! i # drop (Suc i) (questions session)"
    using i by (simp add: Cons_nth_drop_Suc)
  have run: "answer_followup advanced (a # as) st = answer_followup advanced as st1"
    by (simp add: step)
  have s1: "current_question_index session1 = Suc i" "questions session1 = questions session"
    "test_type session1 = test_type session" "is_sequential session1 = is_sequential session"
    "followup_topics session1 = followup_topics session"
    "correct_answers session1
       = correct_answers session
         + (if upper a = upper (q_correct_answer (questions session ! i)) then 1 else 0)"
    by (simp_all add: session1_def i_def mark_sequential_answer_fields)
  have count: "correct_answers session1 + int (correct_count as (drop (Suc i) (questions session)))
        = correct_answers session + int (correct_count (a # as) (drop i (questions session)))"
    by (simp add: s1(6) dropi correct_count_Cons)
  show ?case
  proof (cases "as = []")
    case True
    then have last: "length (questions session) \<le> Suc (current_question_index session)"
      using Cons.prems(3) by simp
    note facts = sequential_answer_step_completes [OF last, where st = st and a = a and
        sw = sw and rt = rt, folded st1_def session1_def]
    have c: "correct_answers session1
        = correct_answers session + int (correct_count [a] (drop i (questions session)))"
      using count True by (simp add: correct_count_def)
    have run1: "answer_followup advanced (a # as) st = st1"
      using True by (simp add: step)
    have c1: "correct_answers session1
        = correct_answers session + int (correct_count (a # as) (drop i (questions session)))"
      using c True by simp
    show ?thesis
      unfolding run1 i_def [symmetric]
      by (simp add: facts c1 sw_def)
  next
    case False
    then have more: "Suc (current_question_index session) < length (questions session)"
      using Cons.prems(3) by (cases as) simp_all
    note facts = sequential_answer_step_continues [OF more, where st = st and a = a and
        sw = sw and rt = rt, folded st1_def session1_def]
    have "\<exists>r. db_tests (answer_followup advanced as st1) = r # db_tests st1
      \<and> tr_score r
          = Some (correct_answers session1
                    + int (correct_count as
                             (drop (current_question_index session1) (questions session1))),
                  int (length (questions session1)))
      \<and> tr_weak_topics r
          = (if followup_weak advanced
                  (correct_answers session1
                     + int (correct_count as
                              (drop (current_question_index session1) (questions session1))))
                  (int (length (questions session1)))
             then followup_topics session1 else [])
      \<and> db_session (answer_followup advanced as st1) = None
      \<and> set (db_weak_topics (answer_followup advanced as st1))
          = set (db_weak_topics st1) \<union> set (cached_weak_pool st1) \<union> set (tr_weak_topics r)
      \<and> set (db_needs_training (answer_followup advanced as st1))
          = set (db_needs_training st1) \<union> set (cached_needs_pool st1)"
      using Cons.prems(2-4) False facts(1)
      by (intro Cons.IH) (simp_all add: s1 i_def)
    then obtain r where r: "db_tests (answer_followup advanced as st1) = r # db_tests st1"
      and score: "tr_score r
          = Some (correct_answers session1
                    + int (correct_count as
                             (drop (current_question_index session1) (questions session1))),
                  int (length (questions session1)))"
      and weak: "tr_weak_topics r
          = (if followup_weak advanced
                  (correct_answers session1
                     + int (correct_count as
                              (drop (current_question_index session1) (questions session1))))
                  (int (length (questions session1)))
             then followup_topics session1 else [])"
      and cleared: "db_session (answer_followup advanced as st1) = None"
      and pool: "set (db_weak_topics (answer_followup advanced as st1))
          = set (db_weak_topics st1) \<union> set (cached_weak_pool st1) \<union> set (tr_weak_topics r)"
      and needs: "set (db_needs_training (answer_followup advanced as st1))
          = set (db_needs_training st1) \<union> set (cached_needs_pool st1)"
      by blast
    have g1: "db_tests (answer_followup advanced as st1) = r # db_tests st"
      using r facts(2) by simp
    have g2: "tr_score r = Some (correct_answers session
                    + int (correct_count (a # as) (drop i (questions session))),
                  int (length (questions session)))"
      using score by (simp only: s1(1,2) count)
    have g3: "tr_weak_topics r
          = (if followup_weak advanced
                  (correct_answers session
                     + int (correct_count (a # as) (drop i (questions session))))
                  (int (length (questions session)))
             then followup_topics session else [])"
      using weak by (simp only: s1(1,2,5) count)
    have g5: "set (db_weak_topics (answer_followup advanced as st1))
          = set (db_weak_topics st) \<union> set (cached_weak_pool st) \<union> set (tr_weak_topics r)"
      unfolding pool facts(3) facts(5) by blast
    have g6: "set (db_needs_training (answer_followup advanced as st1))
          = set (db_needs_training st) \<union> set (cached_needs_pool st)"
      unfolding needs facts(4) facts(6) by blast
    show ?thesis
      unfolding run i_def [symmetric]
      using g1 g2 g3 cleared g5 g6 by blast
  qed
qed

text \<open>
  C7, as amended. No follow-up removes a topic from a pool: whatever the state and the
  answers given, the weak pool and the needs-training pool of the database only gain topics.
  A whole follow-up, from its first question to its last, saves one test result whose score
  is the number of given answers that agree with the correct answers, out of the number of
  questions. With \<open>k\<close> correct answers out of \<open>n\<close> the result reports the topics of the test
  as weak when \<open>k < n * 2 div 3\<close> in a Standard follow-up (fewer than 2 of 3) and when
  \<open>5 * k < 4 * n\<close> in an Advanced follow-up (fewer than 3 of 3), and no topic otherwise. The
  weak pool gains the reported weak topics (and what \<^verbatim>\<open>save_user_data\<close> flushes from the
  cached pool), in an Advanced follow-up too; the needs-training pool gains only the flush of
  its cached pool.
\<close>

theorem followup_pools_only_grow:
  "set (db_weak_topics st) \<subseteq> set (db_weak_topics (answer_followup advanced given st))
   \<and> set (db_needs_training st) \<subseteq> set (db_needs_training (answer_followup advanced given st))
   \<and> (followup_session st = Some session
        \<and> (if advanced then startswith (test_type session) ''Advanced Reevaluation''
            else startswith (test_type session) ''Reevaluation''
                 \<and> \<not> str_in ''Advanced'' (test_type session) \<and> is_sequential session)
        \<and> current_question_index session = 0 \<and> correct_answers session = 0
        \<and> length given = length (questions session) \<and> given \<noteq> [] \<longrightarrow>
       (\<exists>r. db_tests (answer_followup advanced given st) = r # db_tests st
          \<and> tr_score r = Some (int (correct_count given (questions session)),
                               int (length (questions session)))
          \<and> tr_weak_topics r
              = (if (if advanced
                     then 5 * int (correct_count given (questions session))
                            < 4 * int (length (questions session))
                     else int (correct_count given (questions session))
                            < int (length (questions session)) * 2 div 3)
                 then followup_topics session else [])
          \<and> (length (questions session) = 3 \<longrightarrow>
               tr_weak_topics r
                 = (if correct_count given (questions session) < (if advanced then 3 else 2)
                    then followup_topics session else []))
          \<and> db_session (answer_followup advanced given st) = None
          \<and> set (db_weak_topics (answer_followup advanced given st))
              = set (db_weak_topics st) \<union> set (cached_weak_pool st) \<union> set (tr_weak_topics r)
          \<and> set (db_needs_training (answer_followup advanced given st))
              = set (db_needs_training st) \<union> set (cached_needs_pool st)))"
proof (intro conjI impI)
  show "set (db_weak_topics st) \<subseteq> set (db_weak_topics (answer_followup advanced given st))"
    by (rule answer_followup_keeps_pools)
  show "set (db_needs_training st)
          \<subseteq> set (db_needs_training (answer_followup advanced given st))"
    by (rule answer_followup_keeps_pools)
next
  assume h: "followup_session st = Some session
        \<and> (if advanced then startswith (test_type session) ''Advanced Reevaluation''
            else startswith (test_type session) ''Reevaluation''
                 \<and> \<not> str_in ''Advanced'' (test_type session) \<and> is_sequential session)
        \<and> current_question_index session = 0 \<and> correct_answers session = 0
        \<and> length given = length (questions session) \<and> given \<noteq> []"
  define k where "k = correct_count given (questions session)"
  define n where "n = length (questions session)"
  have stored: "db_session st = Some (Sequential session)"
    using h by (auto simp: followup_session_def split: option.splits session.splits)
  have len: "current_question_index session + length given = length (questions session)"
    using h by simp
  have kind: "if advanced then startswith (test_type session) ''Advanced Reevaluation''
              else startswith (test_type session) ''Reevaluation''
                   \<and> \<not> str_in ''Advanced'' (test_type session) \<and> is_sequential session"
    using h by blast
  have given: "given \<noteq> []" using h by blast
  have zero: "current_question_index session = 0" "correct_answers session = 0"
    using h by blast+
  have "\<exists>r. db_tests (answer_followup advanced given st) = r # db_tests st
      \<and> tr_score r = Some (int k, int n)
      \<and> tr_weak_topics r
          = (if followup_weak advanced (int k) (int n) then followup_topics session else [])
      \<and> db_session (answer_followup advanced given st) = None
      \<and> set (db_weak_topics (answer_followup advanced given st))
          = set (db_weak_topics st) \<union> set (cached_weak_pool st) \<union> set (tr_weak_topics r)
      \<and> set (db_needs_training (answer_followup advanced given st))
          = set (db_needs_training st) \<union> set (cached_needs_pool st)"
    using followup_run [OF stored kind len given]
    unfolding zero k_def n_def by simp
  then obtain r where r: "db_tests (answer_followup advanced given st) = r # db_tests st"
      and score: "tr_score r = Some (int k, int n)"
      and weak: "tr_weak_topics r
                   = (if followup_weak advanced (int k) (int n) then followup_topics session
                      else [])"
      and rest: "db_session (answer_followup advanced given st) = None"
        "set (db_weak_topics (answer_followup advanced given st))
           = set (db_weak_topics st) \<union> set (cached_weak_pool st) \<union> set (tr_weak_topics r)"
        "set (db_needs_training (answer_followup advanced given st))
           = set (db_needs_training st) \<union> set (cached_needs_pool st)"
    by blast
  have general: "tr_weak_topics r
      = (if (if advanced then 5 * int k < 4 * int n else int k < int n * 2 div 3)
         then followup_topics session else [])"
    using weak by (simp add: followup_weak_def)
  have three: "n = 3 \<longrightarrow>
      tr_weak_topics r = (if k < (if advanced then 3 else 2) then followup_topics session else [])"
  proof
    assume "n = 3"
    then have "followup_weak advanced (int k) (int n) = (k < (if advanced then 3 else 2))"
      by (auto simp: followup_weak_def)
    then show "tr_weak_topics r
        = (if k < (if advanced then 3 else 2) then followup_topics session else [])"
      using weak by simp
  qed
  show "\<exists>r. db_tests (answer_followup advanced given st) = r # db_tests st
          \<and> tr_score r = Some (int (correct_count given (questions session)),
                               int (length (questions session)))
          \<and> tr_weak_topics r
              = (if (if advanced
                     then 5 * int (correct_count given (questions session))
                            < 4 * int (length (questions session))
                     else int (correct_count given (questions session))
                            < int (length (questions session)) * 2 div 3)
                 then followup_topics session else [])
          \<and> (length (questions session) = 3 \<longrightarrow>
               tr_weak_topics r
                 = (if correct_count given (questions session) < (if advanced then 3 else 2)
                    then followup_topics session else []))
          \<and> db_session (answer_followup advanced given st) = None
          \<and> set (db_weak_topics (answer_followup advanced given st))
              = set (db_weak_topics st) \<union> set (cached_weak_pool st) \<union> set (tr_weak_topics r)
          \<and> set (db_needs_training (answer_followup advanced given st))
              = set (db_needs_training st) \<union> set (cached_needs_pool st)"
    using r score general three rest
    unfolding k_def n_def
    by blast
qed

theorem followup_pools_only_grow_witness:
  "(\<exists>r. db_tests (answer_followup False [''A'', ''A'', ''B'']
                    (snd (start_reevaluation_test ''Queues'' queues_bank queues_learner)))
           = [r]
        \<and> tr_score r = Some (2, 3) \<and> tr_weak_topics r = [])
   \<and> (\<exists>r. db_tests (answer_followup True [''A'', ''A'', ''B'']
                    (snd (start_advanced_reevaluation_test ''Queues'' queues_bank queues_learner)))
           = [r]
        \<and> tr_score r = Some (2, 3) \<and> tr_weak_topics r = [''Queues''])"
proof -
  define st0 where "st0 = snd (start_reevaluation_test ''Queues'' queues_bank queues_learner)"
  define s0 where "s0 = the (followup_session st0)"
  define st1 where
    "st1 = snd (start_advanced_reevaluation_test ''Queues'' queues_bank queues_learner)"
  define s1 where "s1 = the (followup_session st1)"
  have h0: "followup_session st0 = Some s0"
      "startswith (test_type s0) ''Reevaluation''" "\<not> str_in ''Advanced'' (test_type s0)"
      "is_sequential s0" "current_question_index s0 = 0" "correct_answers s0 = 0"
      "length [''A'', ''A'', ''B''] = length (questions s0)"
      "correct_count [''A'', ''A'', ''B''] (questions s0) = 2"
      "length (questions s0) = 3" "db_tests st0 = []"
    unfolding s0_def st0_def by code_simp+
  have h1: "followup_session st1 = Some s1"
      "startswith (test_type s1) ''Advanced Reevaluation''"
      "current_question_index s1 = 0" "correct_answers s1 = 0"
      "length [''A'', ''A'', ''B''] = length (questions s1)"
      "correct_count [''A'', ''A'', ''B''] (questions s1) = 2"
      "length (questions s1) = 3" "db_tests st1 = []" "followup_topics s1 = [''Queues'']"
    unfolding s1_def st1_def by code_simp+
  have standard: "\<exists>r. db_tests (answer_followup False [''A'', ''A'', ''B''] st0) = [r]
        \<and> tr_score r = Some (2, 3) \<and> tr_weak_topics r = []"
    using followup_pools_only_grow [of st0 False "[''A'', ''A'', ''B'']" s0] h0
    by auto
  have advanced: "\<exists>r. db_tests (answer_followup True [''A'', ''A'', ''B''] st1) = [r]
        \<and> tr_score r = Some (2, 3) \<and> tr_weak_topics r = [''Queues'']"
    using followup_pools_only_grow [of st1 True "[''A'', ''A'', ''B'']" s1] h1
    by auto
  show ?thesis
    using standard advanced unfolding st0_def st1_def by blast
qed

text \<open>
  C7 as stated fails: after a Standard follow-up passed with 2 of 3 the topic is still in the
  weak pool, and after an Advanced follow-up passed with 3 of 3 it is still in the
  needs-training pool.
\<close>

theorem passed_followup_keeps_the_pools:
  "(let st = answer_followup False [''A'', ''A'', ''B'']
               (snd (start_reevaluation_test ''Queues'' queues_bank queues_learner))
    in map tr_score (db_tests st) = [Some (2, 3)] \<and> db_session st = None
       \<and> ''Queues'' \<in> set (db_weak_topics st))
   \<and> (let st = answer_followup True [''A'', ''A'', ''A'']
                  (snd (start_advanced_reevaluation_test ''Queues'' queues_bank queues_learner))
       in map tr_score (db_tests st) = [Some (3, 3)] \<and> db_session st = None
          \<and> ''Queues'' \<in> set (db_needs_training st))"
  by code_simp

section \<open>C9: an answer that is none of the choice letters\<close>








subsection \<open>C2: the second Hard failure\<close>







end
